theory Spec2Isabelle
  imports Main
begin

section \<open>The command dispatcher of the tabbed browser\<close>

text \<open>
  A shallow embedding of \<^verbatim>\<open>qutebrowser/browser/commands.py\<close> (class
  \<^verbatim>\<open>CommandDispatcher\<close>). Exceptions are values of \<open>error\<close>; a command takes the
  state it works on and returns its outcome together with the state it leaves behind, so
  that an exception raised half-way keeps the effects made before it.
\<close>

subsection \<open>Errors and Python arithmetic\<close>

datatype error =
    CommandError string
  | ValueError string
  | TypeError string
  | KeyError string
  | UnboundLocalError string
  | ZeroDivisionError

definition py_mod :: "int \<Rightarrow> int \<Rightarrow> error + int" where
  \<comment> \<open>Python's \<^verbatim>\<open>a % b\<close> on ints: floored, and an exception for \<open>b = 0\<close>.\<close>
  "py_mod a b = (if b = 0 then Inl ZeroDivisionError else Inr (a mod b))"

definition check_overflow :: "int \<Rightarrow> error + unit" where
  \<comment> \<open>Modelled from the spec: \<^verbatim>\<open>cmdutils.check_overflow(arg, 'int')\<close> is defined outside
      \<^verbatim>\<open>commands.py\<close>. The spec lists an "out-of-range numeric argument" among the argument-validation
      errors signalled before any side effect; the range is that of the toolkit's 32-bit
      signed int.\<close>
  "check_overflow arg =
     (if arg > 2147483647 \<or> arg < - 2147483648
      then Inl (CommandError ''Numeric argument is too large for internal int representation.'')
      else Inr ())"

subsection \<open>Tabs, the tab widget and the configuration\<close>

record tab =
  tab_id :: nat
  pinned :: bool
  tab_search_text :: "string option"
  search_displayed :: bool
  pos_px_y :: int

datatype selection_behavior = SelectLeftTab | SelectRightTab | SelectPreviousTab

record qurl =
  scheme :: string
  url_string :: string
  is_valid :: bool
  error_string :: string

datatype ignore_case = Always | Never | Smart

record config =
  tabs_wrap :: bool
  tabs_select_on_remove :: selection_behavior
  search_ignore_case :: ignore_case
  url_default_page :: qurl

record search_options =
  opt_ignore_case :: ignore_case
  opt_reverse :: bool

record search_cb_args =
  \<comment> \<open>The arguments \<^verbatim>\<open>functools.partial\<close> fixes for \<^verbatim>\<open>_search_cb\<close>.\<close>
  cb_tab :: nat
  cb_old_scroll_pos :: int
  cb_options :: "search_options option"
  cb_text :: string
  cb_prev :: bool

datatype call =
    NewWindow "bool option"
  | TabOpen qurl "bool option" "bool option"
  | TabOpenInNewWindow qurl
  | OpenUrl nat qurl
  | Reload nat bool
  | Stop nat
  | TabClosePromptIfPinned nat bool bool bool bool
  | SetMark string
  | SearchClear nat
  | Search nat string search_options "search_cb_args option"
  | NextResult nat "search_cb_args option"
  | PrevResult nat "search_cb_args option"
  | MessageInfo string
  | MessageWarning string
  | MessageError string

record tabbed_browser =
  tabs :: "tab list"
  current :: int
  is_private :: bool
  search_text :: "string option"
  search_options :: "search_options option"
  debug_log :: "string list"
  calls :: "call list"

definition tb_count :: "tabbed_browser \<Rightarrow> int" where
  \<comment> \<open>\<^verbatim>\<open>_count\<close>: the widget count.\<close>
  "tb_count tb = int (length (tabs tb))"

definition current_index :: "tabbed_browser \<Rightarrow> int" where
  "current_index tb = current tb"

definition widget_at :: "tabbed_browser \<Rightarrow> int \<Rightarrow> tab option" where
  \<comment> \<open>The toolkit's \<^verbatim>\<open>widget(i)\<close>: the tab at position \<open>i\<close>, nothing out of range.\<close>
  "widget_at tb i = (if 0 \<le> i \<and> i < tb_count tb then Some (tabs tb ! nat i) else None)"

definition currentWidget :: "tabbed_browser \<Rightarrow> tab option" where
  "currentWidget tb = widget_at tb (current tb)"

definition setCurrentIndex :: "int \<Rightarrow> tabbed_browser \<Rightarrow> tabbed_browser" where
  \<comment> \<open>The toolkit's \<^verbatim>\<open>setCurrentIndex\<close>: an index that is no tab's is ignored.\<close>
  "setCurrentIndex idx tb = (if 0 \<le> idx \<and> idx < tb_count tb then tb\<lparr>current := idx\<rparr> else tb)"

definition set_current_index :: "int \<Rightarrow> tabbed_browser \<Rightarrow> (error + unit) \<times> tabbed_browser" where
  "set_current_index idx tb =
     (case check_overflow idx of
        Inl e \<Rightarrow> (Inl e, tb)
      | Inr _ \<Rightarrow> (Inr (), setCurrentIndex idx tb))"

definition log_call :: "call \<Rightarrow> tabbed_browser \<Rightarrow> tabbed_browser" where
  \<comment> \<open>A call into the toolkit whose effect is not modelled: it is recorded, in order.\<close>
  "log_call c tb = tb\<lparr>calls := calls tb @ [c]\<rparr>"

definition log_debug :: "string \<Rightarrow> tabbed_browser \<Rightarrow> tabbed_browser" where
  "log_debug msg tb = tb\<lparr>debug_log := debug_log tb @ [msg]\<rparr>"

definition widget_ok :: "tabbed_browser \<Rightarrow> bool" where
  \<comment> \<open>What the toolkit guarantees of a tab widget: the tabs are distinct objects, their
      number fits its int, and the current index is a tab's (or -1 when there is none).\<close>
  "widget_ok tb \<longleftrightarrow>
     distinct (map tab_id (tabs tb)) \<and> tb_count tb < 2147483647 \<and>
     - 1 \<le> current tb \<and> current tb < tb_count tb \<and> (tabs tb \<noteq> [] \<longrightarrow> 0 \<le> current tb)"

subsection \<open>Relative tab navigation\<close>

definition tab_prev :: "config \<Rightarrow> int \<Rightarrow> tabbed_browser \<Rightarrow> (error + unit) \<times> tabbed_browser" where
  "tab_prev cfg count tb =
     (if tb_count tb = 0 then (Inr (), tb)
      else let newidx = current_index tb - count in
        if newidx \<ge> 0 then set_current_index newidx tb
        else if tabs_wrap cfg then
          (case py_mod newidx (tb_count tb) of
             Inl e \<Rightarrow> (Inl e, tb)
           | Inr m \<Rightarrow> set_current_index m tb)
        else (Inr (), log_debug ''First tab'' tb))"

definition tab_next :: "config \<Rightarrow> int \<Rightarrow> tabbed_browser \<Rightarrow> (error + unit) \<times> tabbed_browser" where
  "tab_next cfg count tb =
     (if tb_count tb = 0 then (Inr (), tb)
      else let newidx = current_index tb + count in
        if newidx < tb_count tb then set_current_index newidx tb
        else if tabs_wrap cfg then
          (case py_mod newidx (tb_count tb) of
             Inl e \<Rightarrow> (Inl e, tb)
           | Inr m \<Rightarrow> set_current_index m tb)
        else (Inr (), log_debug ''Last tab'' tb))"

subsection \<open>Resolving the tab a command is for\<close>

definition current_widget :: "tabbed_browser \<Rightarrow> error + tab" where
  "current_widget tb =
     (case currentWidget tb of
        None \<Rightarrow> Inl (CommandError ''No WebView available yet!'')
      | Some widget \<Rightarrow> Inr widget)"

definition cntwidget :: "int option \<Rightarrow> tabbed_browser \<Rightarrow> error + tab option" where
  "cntwidget count tb =
     (case count of
        None \<Rightarrow> Inr (currentWidget tb)
      | Some c \<Rightarrow>
          if 1 \<le> c \<and> c \<le> tb_count tb then
            (case check_overflow (c + 1) of
               Inl e \<Rightarrow> Inl e
             | Inr _ \<Rightarrow> Inr (widget_at tb (c - 1)))
          else Inr None)"

definition set_tab_pinned :: "nat \<Rightarrow> bool \<Rightarrow> tabbed_browser \<Rightarrow> tabbed_browser" where
  \<comment> \<open>The tab widget's \<^verbatim>\<open>set_tab_pinned\<close>: the tab's \<^verbatim>\<open>data.pinned\<close> becomes the value given.\<close>
  "set_tab_pinned i p tb =
     tb\<lparr>tabs := map (\<lambda>t. if tab_id t = i then t\<lparr>pinned := p\<rparr> else t) (tabs tb)\<rparr>"

definition tab_close ::
  "bool \<Rightarrow> bool \<Rightarrow> bool \<Rightarrow> bool \<Rightarrow> int option \<Rightarrow> tabbed_browser \<Rightarrow> (error + unit) \<times> tabbed_browser"
where
  \<comment> \<open>The closure \<^verbatim>\<open>close\<close> is handed to \<^verbatim>\<open>tab_close_prompt_if_pinned\<close>; the call is
      recorded with the arguments the closure holds.\<close>
  "tab_close prev next opposite force count tb =
     (case cntwidget count tb of
        Inl e \<Rightarrow> (Inl e, tb)
      | Inr None \<Rightarrow> (Inr (), tb)
      | Inr (Some t) \<Rightarrow>
          (Inr (), log_call (TabClosePromptIfPinned (tab_id t) force prev next opposite) tb))"

definition tab_pin :: "int option \<Rightarrow> tabbed_browser \<Rightarrow> (error + unit) \<times> tabbed_browser" where
  "tab_pin count tb =
     (case cntwidget count tb of
        Inl e \<Rightarrow> (Inl e, tb)
      | Inr None \<Rightarrow> (Inr (), tb)
      | Inr (Some t) \<Rightarrow> (let to_pin = \<not> pinned t in (Inr (), set_tab_pinned (tab_id t) to_pin tb)))"

definition reloadpage :: "bool \<Rightarrow> int option \<Rightarrow> tabbed_browser \<Rightarrow> (error + unit) \<times> tabbed_browser" where
  "reloadpage force count tb =
     (case cntwidget count tb of
        Inl e \<Rightarrow> (Inl e, tb)
      | Inr None \<Rightarrow> (Inr (), tb)
      | Inr (Some t) \<Rightarrow> (Inr (), log_call (Reload (tab_id t) force) tb))"

definition stop :: "int option \<Rightarrow> tabbed_browser \<Rightarrow> (error + unit) \<times> tabbed_browser" where
  "stop count tb =
     (case cntwidget count tb of
        Inl e \<Rightarrow> (Inl e, tb)
      | Inr None \<Rightarrow> (Inr (), tb)
      | Inr (Some t) \<Rightarrow> (Inr (), log_call (Stop (tab_id t)) tb))"

subsection \<open>Mutually exclusive flags, opening a page\<close>

fun join :: "string \<Rightarrow> string list \<Rightarrow> string" where
  \<comment> \<open>Python's \<^verbatim>\<open>sep.join(parts)\<close>.\<close>
  "join sep [] = []"
| "join sep [x] = x"
| "join sep (x # y # ys) = x @ sep @ join sep (y # ys)"

definition quoted :: "string \<Rightarrow> string" where
  \<comment> \<open>A text between two apostrophes, as the messages of the source have it.\<close>
  "quoted s = CHR 0x27 # s @ [CHR 0x27]"

definition check_exclusive :: "bool list \<Rightarrow> string \<Rightarrow> error + unit" where
  \<comment> \<open>Modelled from the spec: \<^verbatim>\<open>cmdutils.check_exclusive(flags, names)\<close> is defined outside
      \<^verbatim>\<open>commands.py\<close>. The spec: at most one of the flags may be set; violating this signals an argument
      error before any toolkit call. The flags are given by their truth value, the names
      one letter each.\<close>
  "check_exclusive flags names =
     (if length (filter (\<lambda>e. e) flags) > 1
      then Inl (CommandError (''Only one of '' @ join ''/'' (map (\<lambda>e. [CHR ''-'', e]) names)
                               @ '' can be given!''))
      else Inr ())"

definition raise_cmdexc_if_invalid :: "qurl \<Rightarrow> error + unit" where
  \<comment> \<open>Modelled from the spec: \<^verbatim>\<open>urlutils.raise_cmdexc_if_invalid(url)\<close> is defined outside
      \<^verbatim>\<open>commands.py\<close>. The spec: an invalid URL is a failure re-signalled as the uniform command error.\<close>
  "raise_cmdexc_if_invalid url =
     (if is_valid url then Inr ()
      else Inl (CommandError (''Invalid URL'' @
                 (if error_string url = [] then [] else '' - '' @ error_string url))))"

definition truthy :: "bool option \<Rightarrow> bool" where
  \<comment> \<open>The truth value of an argument that is \<^verbatim>\<open>None\<close>, \<^verbatim>\<open>False\<close> or \<^verbatim>\<open>True\<close>.\<close>
  "truthy b = (b = Some True)"

definition do_open ::
  "qurl \<Rightarrow> bool \<Rightarrow> bool \<Rightarrow> bool \<Rightarrow> bool \<Rightarrow> bool option \<Rightarrow> tabbed_browser
   \<Rightarrow> (error + unit) \<times> tabbed_browser"
where
  \<comment> \<open>\<^verbatim>\<open>_open(url, tab, background, window, related, private)\<close>.\<close>
  "do_open url tab background window related private tb =
     (case raise_cmdexc_if_invalid url of
        Inl e \<Rightarrow> (Inl e, tb)
      | Inr _ \<Rightarrow>
     (case check_exclusive [tab, background, window, truthy private] ''tbwp'' of
        Inl e \<Rightarrow> (Inl e, tb)
      | Inr _ \<Rightarrow>
     (let private = (if window \<and> private = None then Some (is_private tb) else private) in
      if window \<or> truthy private then
        (Inr (), log_call (TabOpenInNewWindow url) (log_call (NewWindow private) tb))
      else if tab then
        (Inr (), log_call (TabOpen url (Some False) (Some related)) tb)
      else if background then
        (Inr (), log_call (TabOpen url (Some True) (Some related)) tb)
      else
        (case current_widget tb of
           Inl e \<Rightarrow> (Inl e, tb)
         | Inr widget \<Rightarrow> (Inr (), log_call (OpenUrl (tab_id widget) url) tb)))))"

definition get_selection_override ::
  "config \<Rightarrow> bool \<Rightarrow> bool \<Rightarrow> bool \<Rightarrow> error + selection_behavior option"
where
  \<comment> \<open>\<^verbatim>\<open>_get_selection_override(prev, next_, opposite)\<close>. The toolkit's selection behaviour has
      the three values of \<open>selection_behavior\<close>, so the source's last branch (a
      \<^verbatim>\<open>ValueError\<close> for any other value) has no input.\<close>
  "get_selection_override cfg prev next opposite =
     (case check_exclusive [prev, next, opposite] ''pno'' of
        Inl e \<Rightarrow> Inl e
      | Inr _ \<Rightarrow>
          if prev then Inr (Some SelectLeftTab)
          else if next then Inr (Some SelectRightTab)
          else if opposite then
            (case tabs_select_on_remove cfg of
               SelectLeftTab \<Rightarrow> Inr (Some SelectRightTab)
             | SelectRightTab \<Rightarrow> Inr (Some SelectLeftTab)
             | SelectPreviousTab \<Rightarrow>
                 Inl (CommandError (''-o is not supported with '' @ quoted ''tabs.select_on_remove''
                                    @ '' set to '' @ quoted ''last-used'' @ ''!'')))
          else Inr None)"

subsection \<open>Python strings\<close>

text \<open>
  A Python \<^verbatim>\<open>str\<close> is modelled by a \<open>string\<close>, its code points below 256 by the
  characters.
\<close>

definition py_isspace :: "char \<Rightarrow> bool" where
  \<comment> \<open>\<^verbatim>\<open>str.isspace\<close> on one code point below 256.\<close>
  "py_isspace c =
     (let n = (of_char c :: nat) in (9 \<le> n \<and> n \<le> 13) \<or> (28 \<le> n \<and> n \<le> 32) \<or> n = 133 \<or> n = 160)"

definition strip :: "string \<Rightarrow> string" where
  \<comment> \<open>\<^verbatim>\<open>s.strip()\<close>.\<close>
  "strip s = rev (dropWhile py_isspace (rev (dropWhile py_isspace s)))"

fun split :: "char \<Rightarrow> string \<Rightarrow> string list" where
  \<comment> \<open>\<^verbatim>\<open>s.split(sep)\<close> for a separator of one character: empty pieces are kept.\<close>
  "split sep [] = [[]]"
| "split sep (c # cs) =
     (if c = sep then [] # split sep cs
      else (case split sep cs of
              [] \<Rightarrow> [[c]]
            | piece # pieces \<Rightarrow> (c # piece) # pieces))"

fun split_once :: "char \<Rightarrow> string \<Rightarrow> string list" where
  \<comment> \<open>\<^verbatim>\<open>s.split(sep, 1)\<close>: split at the first separator only.\<close>
  "split_once sep [] = [[]]"
| "split_once sep (c # cs) =
     (if c = sep then [[], cs]
      else (case split_once sep cs of
              [] \<Rightarrow> [[c]]
            | piece # pieces \<Rightarrow> (c # piece) # pieces))"

subsection \<open>Parsing the input of \<open>open\<close>\<close>

record url_env =
  \<comment> \<open>What the dispatcher asks of the quickmark manager and of \<^verbatim>\<open>urlutils\<close>, both defined
      outside \<^verbatim>\<open>commands.py\<close>. \<open>quickmark_get\<close> is \<open>None\<close> where the manager raises
      \<^verbatim>\<open>urlmarks.Error\<close>; \<open>fuzzy_url\<close> is \<open>Inl\<close> of the text of the
      \<^verbatim>\<open>InvalidUrlError\<close> where \<^verbatim>\<open>urlutils.fuzzy_url\<close> raises it;
      \<open>get_path_if_valid\<close> is the call with \<^verbatim>\<open>check_exists=True\<close>.\<close>
  quickmark_get :: "string \<Rightarrow> qurl option"
  fuzzy_url :: "string \<Rightarrow> bool \<Rightarrow> string + qurl"
  is_url :: "string \<Rightarrow> bool"
  get_path_if_valid :: "string \<Rightarrow> string option"

datatype url_input = UrlObject qurl | UrlText string

definition parse_url ::
  "url_env \<Rightarrow> string \<Rightarrow> bool \<Rightarrow> tabbed_browser \<Rightarrow> qurl option \<times> tabbed_browser"
where
  \<comment> \<open>\<^verbatim>\<open>_parse_url(url, force_search=...)\<close>.\<close>
  "parse_url env url force_search tb =
     (case quickmark_get env url of
        Some u \<Rightarrow> (Some u, tb)
      | None \<Rightarrow>
          (case fuzzy_url env url force_search of
             Inr u \<Rightarrow> (Some u, tb)
           | Inl e \<Rightarrow> (None, log_call (MessageError e) tb)))"

fun parse_urls ::
  "url_env \<Rightarrow> bool \<Rightarrow> string list \<Rightarrow> tabbed_browser \<Rightarrow> qurl list \<times> tabbed_browser"
where
  \<comment> \<open>The \<^verbatim>\<open>for\<close> loop of \<^verbatim>\<open>_parse_url_input\<close>, with the URLs it yields in order.\<close>
  "parse_urls env force_search [] tb = ([], tb)"
| "parse_urls env force_search (cur_url # rest) tb =
     (case parse_url env cur_url force_search tb of
        (None, tb1) \<Rightarrow> parse_urls env force_search rest tb1
      | (Some parsed, tb1) \<Rightarrow>
          (case parse_urls env force_search rest tb1 of
             (urls, tb2) \<Rightarrow> (parsed # urls, tb2)))"

definition non_blank_lines :: "string \<Rightarrow> string list" where
  \<comment> \<open>\<^verbatim>\<open>[u for u in url.split('\n') if u.strip()]\<close>.\<close>
  "non_blank_lines url = filter (\<lambda>u. strip u \<noteq> []) (split (CHR 0x0A) url)"

definition url_plan :: "url_env \<Rightarrow> string \<Rightarrow> bool \<times> string list" where
  \<comment> \<open>\<^verbatim>\<open>_parse_url_input\<close> up to its loop: \<^verbatim>\<open>force_search\<close> and \<^verbatim>\<open>urllist\<close>.\<close>
  "url_plan env url =
     (let urllist = non_blank_lines url in
      if length urllist > 1 \<and> \<not> is_url env (hd urllist)
         \<and> get_path_if_valid env (hd urllist) = None
      then (True, [url])
      else (False, urllist))"

definition parse_url_input ::
  "url_env \<Rightarrow> url_input \<Rightarrow> tabbed_browser \<Rightarrow> qurl list \<times> tabbed_browser"
where
  \<comment> \<open>\<^verbatim>\<open>_parse_url_input(url)\<close>, the generator run to its end.\<close>
  "parse_url_input env url tb =
     (case url of
        UrlObject u \<Rightarrow> ([u], tb)
      | UrlText s \<Rightarrow> (case url_plan env s of (force_search, urllist) \<Rightarrow>
                       parse_urls env force_search urllist tb))"

datatype pending_url = Ready qurl | Line string

fun openurl_loop ::
  "url_env \<Rightarrow> bool \<Rightarrow> bool \<Rightarrow> int option \<Rightarrow> bool \<Rightarrow> bool \<Rightarrow> bool
   \<Rightarrow> nat \<Rightarrow> bool \<Rightarrow> bool \<Rightarrow> pending_url list \<Rightarrow> tabbed_browser
   \<Rightarrow> (error + unit) \<times> tabbed_browser"
where
  \<comment> \<open>The loop of \<^verbatim>\<open>openurl\<close> over the URLs the generator yields: a line is parsed when
      the loop asks for it, and a line that does not parse is skipped. \<open>i\<close> counts the
      URLs yielded so far; \<open>tab\<close> and \<open>bg\<close> are the loop's variables.\<close>
  "openurl_loop env related window count secure private force_search i tab bg [] tb = (Inr (), tb)"
| "openurl_loop env related window count secure private force_search i tab bg (item # rest) tb =
     (case (case item of Ready u \<Rightarrow> (Some u, tb) | Line l \<Rightarrow> parse_url env l force_search tb) of
        (None, tb1) \<Rightarrow>
          openurl_loop env related window count secure private force_search i tab bg rest tb1
      | (Some yielded, tb1) \<Rightarrow>
          (let cur_url = (if secure then yielded\<lparr>scheme := ''https''\<rparr> else yielded);
               tab = (if \<not> window \<and> i > 0 then False else tab);
               bg = (if \<not> window \<and> i > 0 then True else bg)
           in
           if tab \<or> bg \<or> window \<or> private then
             (case do_open cur_url tab bg window related (Some private) tb1 of
                (Inl e, tb2) \<Rightarrow> (Inl e, tb2)
              | (Inr _, tb2) \<Rightarrow>
                  openurl_loop env related window count secure private force_search
                    (Suc i) tab bg rest tb2)
           else
             (case cntwidget count tb1 of
                Inl e \<Rightarrow> (Inl e, tb1)
              | Inr None \<Rightarrow>
                  if count = None then
                    openurl_loop env related window count secure private force_search
                      (Suc i) tab bg rest (log_call (TabOpen cur_url None None) tb1)
                  else (Inr (), tb1)
              | Inr (Some curtab) \<Rightarrow>
                  if pinned curtab then
                    openurl_loop env related window count secure private force_search
                      (Suc i) tab bg rest (log_call (MessageInfo ''Tab is pinned!'') tb1)
                  else
                    openurl_loop env related window count secure private force_search
                      (Suc i) tab bg rest (log_call (OpenUrl (tab_id curtab) cur_url) tb1))))"

definition openurl ::
  "url_env \<Rightarrow> config \<Rightarrow> url_input option \<Rightarrow> bool \<Rightarrow> bool \<Rightarrow> bool \<Rightarrow> bool \<Rightarrow> int option
   \<Rightarrow> bool \<Rightarrow> bool \<Rightarrow> tabbed_browser \<Rightarrow> (error + unit) \<times> tabbed_browser"
where
  \<comment> \<open>\<^verbatim>\<open>openurl(url, related, bg, tab, window, count, secure, private)\<close>.\<close>
  "openurl env cfg url related bg tab window count secure private tb =
     (case url of
        None \<Rightarrow>
          openurl_loop env related window count secure private False 0 tab bg
            [Ready (url_default_page cfg)] tb
      | Some (UrlObject u) \<Rightarrow>
          openurl_loop env related window count secure private False 0 tab bg [Ready u] tb
      | Some (UrlText s) \<Rightarrow>
          (case url_plan env s of (force_search, urllist) \<Rightarrow>
             openurl_loop env related window count secure private force_search 0 tab bg
               (map Line urllist) tb))"

subsection \<open>Searching\<close>

definition tab_update :: "nat \<Rightarrow> (tab \<Rightarrow> tab) \<Rightarrow> tabbed_browser \<Rightarrow> tabbed_browser" where
  "tab_update i f tb = tb\<lparr>tabs := map (\<lambda>t. if tab_id t = i then f t else t) (tabs tb)\<rparr>"

definition tab_search_clear :: "nat \<Rightarrow> tabbed_browser \<Rightarrow> tabbed_browser" where
  \<comment> \<open>The tab's \<^verbatim>\<open>search.clear()\<close>: the call is recorded; no results are displayed after it.\<close>
  "tab_search_clear i tb =
     log_call (SearchClear i) (tab_update i (\<lambda>t. t\<lparr>search_displayed := False\<rparr>) tb)"

definition tab_search_search ::
  "nat \<Rightarrow> string \<Rightarrow> search_options \<Rightarrow> search_cb_args option \<Rightarrow> tabbed_browser \<Rightarrow> tabbed_browser"
where
  \<comment> \<open>The tab's \<^verbatim>\<open>search.search(text, **options)\<close>: the call is recorded; the tab keeps the
      text as its \<^verbatim>\<open>search.text\<close> and displays the results.\<close>
  "tab_search_search i text options cb tb =
     log_call (Search i text options cb)
       (tab_update i (\<lambda>t. t\<lparr>tab_search_text := Some text, search_displayed := True\<rparr>) tb)"

definition set_mark :: "string \<Rightarrow> tabbed_browser \<Rightarrow> tabbed_browser" where
  "set_mark key tb = log_call (SetMark key) tb"

definition going_up :: "search_options \<Rightarrow> bool \<Rightarrow> bool" where
  \<comment> \<open>\<^verbatim>\<open>going_up = options['reverse'] ^ prev\<close> in \<^verbatim>\<open>_search_cb\<close>: the exclusive or of two
      Booleans.\<close>
  "going_up options prev = (opt_reverse options \<noteq> prev)"

definition search_cb :: "bool \<Rightarrow> int \<Rightarrow> search_cb_args \<Rightarrow> error + call option" where
  \<comment> \<open>\<^verbatim>\<open>_search_cb(found, tab=..., old_scroll_pos=..., options=..., text=..., prev=...)\<close>.
      \<open>pos_y\<close> is the vertical scroll position of the tab when the callback runs; the
      result is the message shown, if any.\<close>
  "search_cb found pos_y cb =
     (case cb_options cb of
        None \<Rightarrow> Inl (TypeError ''options is None'')
      | Some options \<Rightarrow>
          if found then
            (if \<not> going_up options (cb_prev cb) \<and> pos_y < cb_old_scroll_pos cb
               then Inr (Some (MessageInfo ''Search hit BOTTOM, continuing at TOP''))
             else if going_up options (cb_prev cb) \<and> pos_y > cb_old_scroll_pos cb
               then Inr (Some (MessageInfo ''Search hit TOP, continuing at BOTTOM''))
             else Inr None)
          else Inr (Some (MessageWarning (''Text '' @ quoted (cb_text cb) @ '' not found on page!''))))"

definition search ::
  "config \<Rightarrow> string \<Rightarrow> bool \<Rightarrow> tabbed_browser \<Rightarrow> (error + unit) \<times> tabbed_browser"
where
  "search cfg text reverse tb =
     (let tb1 = set_mark [CHR 0x27] tb in
      case current_widget tb1 of
        Inl e \<Rightarrow> (Inl e, tb1)
      | Inr tab \<Rightarrow>
          if text = [] then
            (if search_displayed tab then (Inr (), tab_search_clear (tab_id tab) tb1)
             else (Inr (), tb1))
          else
            (let options = \<lparr>opt_ignore_case = search_ignore_case cfg, opt_reverse = reverse\<rparr>;
                 tb2 = tb1\<lparr>search_text := Some text, search_options := Some options\<rparr>;
                 cb = \<lparr>cb_tab = tab_id tab, cb_old_scroll_pos = pos_px_y tab,
                       cb_options = Some options, cb_text = text, cb_prev = False\<rparr>
             in (Inr (), tab_search_search (tab_id tab) text options (Some cb) tb2)))"

definition research ::
  "tab \<Rightarrow> string \<Rightarrow> search_options option \<Rightarrow> int \<Rightarrow> tabbed_browser
   \<Rightarrow> (error + int) \<times> tabbed_browser"
where
  \<comment> \<open>The step search_next and search_prev share: when the window's text is not the one
      the tab searched last, the search is issued again on the tab and that uses up one of
      the count. The result is the count that is left.\<close>
  "research tab window_text window_options count tb =
     (if Some window_text \<noteq> tab_search_text tab then
        (let tb1 = tab_search_clear (tab_id tab) tb in
         case window_options of
           None \<Rightarrow> (Inl (TypeError ''argument after ** must be a mapping, not NoneType''), tb1)
         | Some options \<Rightarrow>
             (Inr (count - 1), tab_search_search (tab_id tab) window_text options None tb1))
      else (Inr count, tb))"

definition search_next :: "int \<Rightarrow> tabbed_browser \<Rightarrow> (error + unit) \<times> tabbed_browser" where
  "search_next count tb =
     (case current_widget tb of
        Inl e \<Rightarrow> (Inl e, tb)
      | Inr tab \<Rightarrow>
     (let window_text = search_text tb; window_options = search_options tb in
      case window_text of
        None \<Rightarrow> (Inl (CommandError ''No search done yet.''), tb)
      | Some text \<Rightarrow>
     (case research tab text window_options count (set_mark [CHR 0x27] tb) of
        (Inl e, tb1) \<Rightarrow> (Inl e, tb1)
      | (Inr count, tb1) \<Rightarrow>
          if count = 0 then (Inr (), tb1)
          else
            (let cb = \<lparr>cb_tab = tab_id tab, cb_old_scroll_pos = pos_px_y tab,
                       cb_options = window_options, cb_text = text, cb_prev = False\<rparr>
             in (Inr (), log_call (NextResult (tab_id tab) (Some cb))
                          (tb1\<lparr>calls := calls tb1
                              @ replicate (nat (count - 1)) (NextResult (tab_id tab) None)\<rparr>))))))"

definition search_prev :: "int \<Rightarrow> tabbed_browser \<Rightarrow> (error + unit) \<times> tabbed_browser" where
  "search_prev count tb =
     (case current_widget tb of
        Inl e \<Rightarrow> (Inl e, tb)
      | Inr tab \<Rightarrow>
     (let window_text = search_text tb; window_options = search_options tb in
      case window_text of
        None \<Rightarrow> (Inl (CommandError ''No search done yet.''), tb)
      | Some text \<Rightarrow>
     (case research tab text window_options count (set_mark [CHR 0x27] tb) of
        (Inl e, tb1) \<Rightarrow> (Inl e, tb1)
      | (Inr count, tb1) \<Rightarrow>
          if count = 0 then (Inr (), tb1)
          else
            (let cb = \<lparr>cb_tab = tab_id tab, cb_old_scroll_pos = pos_px_y tab,
                       cb_options = window_options, cb_text = text, cb_prev = True\<rparr>
             in (Inr (), log_call (PrevResult (tab_id tab) (Some cb))
                          (tb1\<lparr>calls := calls tb1
                              @ replicate (nat (count - 1)) (PrevResult (tab_id tab) None)\<rparr>))))))"

subsection \<open>Numbers as text\<close>

definition digit_char :: "nat \<Rightarrow> char" where
  \<comment> \<open>The character of a decimal digit \<open>d < 10\<close>.\<close>
  "digit_char d = ''0123456789'' ! d"

fun str_nat :: "nat \<Rightarrow> string" where
  "str_nat n = (if n < 10 then [digit_char n] else str_nat (n div 10) @ [digit_char (n mod 10)])"

definition str_int :: "int \<Rightarrow> string" where
  \<comment> \<open>\<^verbatim>\<open>str(i)\<close> and \<^verbatim>\<open>'{}'.format(i)\<close> of an int.\<close>
  "str_int i = (if i < 0 then CHR ''-'' # str_nat (nat (- i)) else str_nat (nat i))"

definition is_digit :: "char \<Rightarrow> bool" where
  "is_digit c = ((48::nat) \<le> of_char c \<and> (of_char c :: nat) \<le> 57)"

definition digit_value :: "char \<Rightarrow> nat" where
  "digit_value c = of_char c - 48"

datatype digits_state = Start | AfterDigit | AfterUnderscore

fun parse_digits :: "digits_state \<Rightarrow> nat \<Rightarrow> string \<Rightarrow> nat option" where
  \<comment> \<open>Decimal digits, where single underscores may stand between two digits (as
      \<^verbatim>\<open>int()\<close> takes them from Python 3.6 on).\<close>
  "parse_digits st acc [] = (if st = AfterDigit then Some acc else None)"
| "parse_digits st acc (c # cs) =
     (if is_digit c then parse_digits AfterDigit (acc * 10 + digit_value c) cs
      else if c = CHR ''_'' \<and> st = AfterDigit then parse_digits AfterUnderscore acc cs
      else None)"

definition int_isspace :: "char \<Rightarrow> bool" where
  \<comment> \<open>The white space \<^verbatim>\<open>int()\<close> accepts around a number, among the code points below 256:
      tab to carriage return, the space, and the two that are not ASCII. The separators 28
      to 31, which \<^verbatim>\<open>str.strip\<close> drops, are not among them.\<close>
  "int_isspace c =
     (let n = (of_char c :: nat) in (9 \<le> n \<and> n \<le> 13) \<or> n = 32 \<or> n = 133 \<or> n = 160)"

definition int_strip :: "string \<Rightarrow> string" where
  "int_strip s = rev (dropWhile int_isspace (rev (dropWhile int_isspace s)))"

definition py_int :: "string \<Rightarrow> int option" where
  \<comment> \<open>\<^verbatim>\<open>int(s)\<close> of a text: the white space around it is dropped, a sign may come first,
      then the digits; \<open>None\<close> where Python raises \<^verbatim>\<open>ValueError\<close>.\<close>
  "py_int s =
     (case int_strip s of
        [] \<Rightarrow> None
      | c # cs \<Rightarrow>
          if c = CHR ''-'' then map_option (\<lambda>n. - int n) (parse_digits Start 0 cs)
          else if c = CHR ''+'' then map_option int (parse_digits Start 0 cs)
          else map_option int (parse_digits Start 0 (c # cs)))"

subsection \<open>Moving the current tab\<close>

datatype move_index = Plus | Minus | Position int

definition move_elem :: "nat \<Rightarrow> nat \<Rightarrow> 'a list \<Rightarrow> 'a list" where
  \<comment> \<open>The element at position \<open>i\<close> taken out and put in again at position \<open>j\<close>.\<close>
  "move_elem i j xs =
     (let rest = take i xs @ drop (Suc i) xs in take j rest @ [xs ! i] @ drop j rest)"

definition moveTab :: "int \<Rightarrow> int \<Rightarrow> tabbed_browser \<Rightarrow> tabbed_browser" where
  \<comment> \<open>The toolkit's \<^verbatim>\<open>tabBar().moveTab(from, to)\<close>: nothing happens unless both are
      positions of tabs and differ; the current tab stays the current tab.\<close>
  "moveTab from to tb =
     (if from = to \<or> \<not> (0 \<le> from \<and> from < tb_count tb) \<or> \<not> (0 \<le> to \<and> to < tb_count tb)
      then tb
      else tb\<lparr>tabs := move_elem (nat from) (nat to) (tabs tb),
              current :=
                (if current tb = from then to
                 else if from < current tb \<and> current tb \<le> to then current tb - 1
                 else if to \<le> current tb \<and> current tb < from then current tb + 1
                 else current tb)\<rparr>)"

definition tab_move ::
  "config \<Rightarrow> move_index option \<Rightarrow> int option \<Rightarrow> tabbed_browser
   \<Rightarrow> (error + unit) \<times> tabbed_browser"
where
  "tab_move cfg index count tb =
     (case
        (if index = Some Plus \<or> index = Some Minus then
           (let new_idx = current_index tb;
                delta = (case count of None \<Rightarrow> 1 | Some c \<Rightarrow> c);
                new_idx = (if index = Some Minus then new_idx - delta else new_idx + delta)
            in if tabs_wrap cfg then py_mod new_idx (tb_count tb) else Inr new_idx)
         else
           (case count of
              Some c \<Rightarrow> Inr (c - 1)
            | None \<Rightarrow>
                (case index of
                   Some (Position i) \<Rightarrow> Inr (if i \<ge> 0 then i - 1 else i + tb_count tb)
                 | _ \<Rightarrow> Inr 0)))
      of
        Inl e \<Rightarrow> (Inl e, tb)
      | Inr new_idx \<Rightarrow>
          if \<not> (0 \<le> new_idx \<and> new_idx < tb_count tb) then
            (Inl (CommandError (''Can'' @ [CHR 0x27] @ ''t move tab to position ''
                                @ str_int (new_idx + 1) @ ''!'')), tb)
          else
            (let cur_idx = current_index tb in
             case check_overflow cur_idx of
               Inl e \<Rightarrow> (Inl e, tb)
             | Inr _ \<Rightarrow>
                 (case check_overflow new_idx of
                    Inl e \<Rightarrow> (Inl e, tb)
                  | Inr _ \<Rightarrow> (Inr (), moveTab cur_idx new_idx tb))))"

subsection \<open>Selecting a tab of any window\<close>

datatype window_call = ActivateWindow int | RaiseWindow int

record app =
  \<comment> \<open>The windows by their ids, each with its tabbed browser (the window registry), the
      id of the active window if there is one, and the calls made to windows.\<close>
  window_registry :: "int \<Rightarrow> tabbed_browser option"
  active_window :: "int option"
  window_calls :: "window_call list"

fun index_of :: "nat \<Rightarrow> tab list \<Rightarrow> int" where
  \<comment> \<open>The toolkit's \<^verbatim>\<open>indexOf\<close>: the position of the tab, or -1.\<close>
  "index_of i [] = - 1"
| "index_of i (t # ts) =
     (if tab_id t = i then 0
      else (let r = index_of i ts in if r < 0 then - 1 else r + 1))"

definition setCurrentWidget :: "tab \<Rightarrow> tabbed_browser \<Rightarrow> tabbed_browser" where
  \<comment> \<open>The toolkit's \<^verbatim>\<open>setCurrentWidget\<close>.\<close>
  "setCurrentWidget t tb = setCurrentIndex (index_of (tab_id t) (tabs tb)) tb"

definition int_literal_error :: "string \<Rightarrow> error" where
  "int_literal_error s = ValueError (''invalid literal for int() with base 10: '' @ quoted s)"

definition resolve_buffer_index ::
  "(string \<Rightarrow> string list) \<Rightarrow> string \<Rightarrow> app \<Rightarrow> error + (int \<times> tabbed_browser \<times> tab)"
where
  \<comment> \<open>\<^verbatim>\<open>_resolve_buffer_index(index)\<close>. \<open>model\<close> stands for the completion model
      \<^verbatim>\<open>miscmodels.buffer()\<close> with the pattern set, defined outside \<^verbatim>\<open>commands.py\<close>: the data
      (\<^verbatim>\<open>win_id/index\<close>) of its items, ranked. The tabbed browser found is returned with the
      id of its window.\<close>
  "resolve_buffer_index model index app =
     (case
        (let index_parts = split_once (CHR ''/'') index in
         if list_all (\<lambda>part. py_int part \<noteq> None) index_parts then Inr index_parts
         else
           (case model index of
              [] \<Rightarrow> Inl (CommandError (''No matching tab for: '' @ index))
            | first_item # _ \<Rightarrow> Inr (split_once (CHR ''/'') first_item)))
      of
        Inl e \<Rightarrow> Inl e
      | Inr index_parts \<Rightarrow>
     (case
        (case index_parts of
           [w, i] \<Rightarrow>
             (case py_int w of
                None \<Rightarrow> Inl (int_literal_error w)
              | Some win_id \<Rightarrow>
                  (case py_int i of
                     None \<Rightarrow> Inl (int_literal_error i)
                   | Some idx \<Rightarrow> Inr (win_id, idx)))
         | [i] \<Rightarrow>
             (case py_int i of
                None \<Rightarrow> Inl (int_literal_error i)
              | Some idx \<Rightarrow>
                  (case active_window app of
                     None \<Rightarrow> Inl (CommandError (''No window specified and couldn'' @ [CHR 0x27]
                                                 @ ''t find active window!''))
                   | Some win_id \<Rightarrow> Inr (win_id, idx)))
         | _ \<Rightarrow> Inl (UnboundLocalError ''win_id''))
      of
        Inl e \<Rightarrow> Inl e
      | Inr (win_id, idx) \<Rightarrow>
          (case window_registry app win_id of
             None \<Rightarrow> Inl (CommandError (''There'' @ [CHR 0x27] @ ''s no window with id ''
                                        @ str_int win_id @ ''!''))
           | Some tabbed_browser \<Rightarrow>
               if \<not> (0 < idx \<and> idx \<le> tb_count tabbed_browser) then
                 Inl (CommandError (''There'' @ [CHR 0x27] @ ''s no tab with index ''
                                    @ str_int idx @ ''!''))
               else Inr (win_id, tabbed_browser, tabs tabbed_browser ! nat (idx - 1)))))"

definition buffer ::
  "(string \<Rightarrow> string list) \<Rightarrow> url_env \<Rightarrow> config \<Rightarrow> int \<Rightarrow> string option \<Rightarrow> int option \<Rightarrow> app
   \<Rightarrow> (error + unit) \<times> app"
where
  \<comment> \<open>\<^verbatim>\<open>buffer(index, count)\<close> of the dispatcher of the window \<open>self_win_id\<close>, whose own
      tabbed browser is the one registered for that id. Past the first test one of count
      and index is given, so the empty text below is never used.\<close>
  "buffer model env cfg self_win_id index count app =
     (if count = None \<and> index = None then
        (case window_registry app self_win_id of
           None \<Rightarrow> (Inl (KeyError ''tabbed-browser''), app)
         | Some tb \<Rightarrow>
             (case openurl env cfg (Some (UrlText ''qute://tabs/'')) False False True False
                     None False False tb of
                (r, tb1) \<Rightarrow>
                  (r, app\<lparr>window_registry := (window_registry app)(self_win_id \<mapsto> tb1)\<rparr>)))
      else
        (let index = (case count of
                        Some c \<Rightarrow> str_int c
                      | None \<Rightarrow> (case index of Some i \<Rightarrow> i | None \<Rightarrow> []))
         in
         case resolve_buffer_index model index app of
           Inl e \<Rightarrow> (Inl e, app)
         | Inr (win_id, tabbed_browser, tab) \<Rightarrow>
             (Inr (),
              app\<lparr>window_calls := window_calls app @ [ActivateWindow win_id, RaiseWindow win_id],
                  window_registry := (window_registry app)
                     (win_id \<mapsto> setCurrentWidget tab tabbed_browser)\<rparr>)))"

subsection \<open>Sample states\<close>

definition sample_tab :: "nat \<Rightarrow> tab" where
  "sample_tab i = \<lparr>tab_id = i, pinned = False, tab_search_text = None,
                    search_displayed = False, pos_px_y = 0\<rparr>"

definition sample_window :: "nat \<Rightarrow> int \<Rightarrow> tabbed_browser" where
  \<comment> \<open>A window of \<open>n\<close> fresh tabs with the given current index and no search done.\<close>
  "sample_window n cur = \<lparr>tabs = map sample_tab [0..<n], current = cur, is_private = False,
                          search_text = None, search_options = None, debug_log = [],
                          calls = []\<rparr>"

definition sample_url :: qurl where
  "sample_url = \<lparr>scheme = ''https'', url_string = ''https://example.org/'', is_valid = True,
                  error_string = []\<rparr>"

definition sample_config :: "bool \<Rightarrow> selection_behavior \<Rightarrow> config" where
  "sample_config wrap sel = \<lparr>tabs_wrap = wrap, tabs_select_on_remove = sel,
                             search_ignore_case = Smart, url_default_page = sample_url\<rparr>"

definition flags_set :: "bool \<Rightarrow> bool \<Rightarrow> bool \<Rightarrow> bool option \<Rightarrow> nat" where
  \<comment> \<open>How many of the destination flags tab, background, window and private are set.\<close>
  "flags_set tab background window private =
     length (filter (\<lambda>e. e) [tab, background, window, private = Some True])"


definition sample_env :: url_env where
  \<comment> \<open>No quickmarks, no paths; a text is a URL when it starts with \<^verbatim>\<open>https://\<close>, and a forced
      search turns a text into a query of a search page.\<close>
  "sample_env = \<lparr>quickmark_get = (\<lambda>name. None),
     fuzzy_url = (\<lambda>text force_search. Inr \<lparr>scheme = ''https'',
        url_string = (if force_search then ''https://search.example/?q='' @ text else text),
        is_valid = True, error_string = []\<rparr>),
     is_url = (\<lambda>text. take 8 text = ''https://''),
     get_path_if_valid = (\<lambda>text. None)\<rparr>"

definition sample_text_abc :: string where
  \<comment> \<open>The three lines \<^verbatim>\<open>a\<close>, \<^verbatim>\<open>b\<close>, \<^verbatim>\<open>c\<close>.\<close>
  "sample_text_abc = [CHR ''a'', CHR 0x0A, CHR ''b'', CHR 0x0A, CHR ''c'']"

definition sample_text_urls :: string where
  \<comment> \<open>A URL, an empty line and the line \<^verbatim>\<open>b\<close>.\<close>
  "sample_text_urls = ''https://a.org'' @ [CHR 0x0A, CHR 0x0A, CHR ''b'']"

definition issued_calls :: "tabbed_browser \<Rightarrow> tabbed_browser \<Rightarrow> call list" where
  \<comment> \<open>The calls made to the toolkit between two states of a window.\<close>
  "issued_calls before after = drop (length (calls before)) (calls after)"

definition result_steps ::
  "(search_cb_args option \<Rightarrow> call) \<Rightarrow> int \<Rightarrow> search_cb_args \<Rightarrow> call list"
where
  \<comment> \<open>The steps to further results a continuation makes when \<open>left\<close> of its count is
      left: none for zero, else the step without callback \<open>left - 1\<close> times and once more
      with the callback.\<close>
  "result_steps step left cb =
     (if left = 0 then [] else replicate (nat (left - 1)) (step None) @ [step (Some cb)])"

definition continuation_cb :: "tab \<Rightarrow> string \<Rightarrow> search_options \<Rightarrow> bool \<Rightarrow> search_cb_args" where
  \<comment> \<open>The callback built for a tab, a text, the options of a search and the flag
      \<open>prev\<close>, with the scroll position the tab has.\<close>
  "continuation_cb tab text options prev =
     \<lparr>cb_tab = tab_id tab, cb_old_scroll_pos = pos_px_y tab, cb_options = Some options,
      cb_text = text, cb_prev = prev\<rparr>"

definition sample_searched :: tabbed_browser where
  \<comment> \<open>A window of two tabs where \<^verbatim>\<open>foo\<close> has been searched backwards; its current tab has
      searched that text.\<close>
  "sample_searched =
     \<lparr>tabs = [(sample_tab 0)\<lparr>tab_search_text := Some ''foo'', search_displayed := True\<rparr>,
              sample_tab 1],
      current = 0, is_private = False, search_text = Some ''foo'',
      search_options = Some \<lparr>opt_ignore_case = Smart, opt_reverse = True\<rparr>,
      debug_log = [], calls = []\<rparr>"

definition sample_switched :: tabbed_browser where
  \<comment> \<open>A window of two tabs: \<^verbatim>\<open>foo\<close> was searched forwards in the first tab, then the second
      tab was made the current one.\<close>
  "sample_switched =
     snd (tab_next (sample_config True SelectRightTab) 1
            (snd (search (sample_config True SelectRightTab) ''foo'' False (sample_window 2 0))))"

definition sample_app :: app where
  \<comment> \<open>Two windows: the active window 0 with two tabs, and window 2 with four.\<close>
  "sample_app = \<lparr>window_registry = [0 \<mapsto> sample_window 2 0, 2 \<mapsto> sample_window 4 0],
                  active_window = Some 0, window_calls = []\<rparr>"

definition sample_model :: "string \<Rightarrow> string list" where
  \<comment> \<open>A completion model in which only the pattern \<^verbatim>\<open>foo\<close> matches tabs.\<close>
  "sample_model pattern = (if pattern = ''foo'' then [''2/1'', ''0/2''] else [])"


section \<open>Properties\<close>

subsection \<open>Helper facts\<close>

lemma set_current_index_in_range:
  assumes "0 \<le> i" and "i < tb_count tb" and "tb_count tb < 2147483647"
  shows "set_current_index i tb = (Inr (), tb\<lparr>current := i\<rparr>)"
  using assms by (simp add: set_current_index_def check_overflow_def setCurrentIndex_def)

lemma py_mod_pos:
  assumes "0 < n"
  shows "py_mod a n = Inr (a mod n)" and "0 \<le> a mod n" and "a mod n < n"
  using assms by (simp_all add: py_mod_def)

lemma sample_window_count: "tb_count (sample_window n cur) = int n"
  by (simp add: tb_count_def sample_window_def)

lemma sample_window_ok:
  "n < 100 \<Longrightarrow> (n = 0 \<longrightarrow> cur = - 1) \<Longrightarrow> (0 < n \<longrightarrow> 0 \<le> cur \<and> cur < int n) \<Longrightarrow>
   widget_ok (sample_window n cur)"
  by (cases "n = 0")
     (auto simp: widget_ok_def sample_window_def tb_count_def sample_tab_def distinct_map
           intro!: inj_onI)

lemma tab_next_eval:
  assumes ok: "widget_ok tb" and ne: "tabs tb \<noteq> []" and c: "0 \<le> count"
  shows "tab_next cfg count tb =
          (if current tb + count < tb_count tb then (Inr (), tb\<lparr>current := current tb + count\<rparr>)
           else if tabs_wrap cfg
             then (Inr (), tb\<lparr>current := (current tb + count) mod tb_count tb\<rparr>)
           else (Inr (), log_debug ''Last tab'' tb))"
proof -
  from ne have pos: "0 < tb_count tb" by (simp add: tb_count_def)
  from ok have small: "tb_count tb < 2147483647" and cur: "0 \<le> current tb"
    using ne by (simp_all add: widget_ok_def)
  show ?thesis
  proof (cases "current tb + count < tb_count tb")
    case True
    with cur c pos small show ?thesis
      by (simp add: tab_next_def current_index_def set_current_index_in_range)
  next
    case False
    with pos small show ?thesis
      by (simp add: tab_next_def current_index_def py_mod_pos set_current_index_in_range)
  qed
qed

lemma tab_prev_eval:
  assumes ok: "widget_ok tb" and ne: "tabs tb \<noteq> []" and c: "0 \<le> count"
  shows "tab_prev cfg count tb =
          (if 0 \<le> current tb - count then (Inr (), tb\<lparr>current := current tb - count\<rparr>)
           else if tabs_wrap cfg
             then (Inr (), tb\<lparr>current := (current tb - count) mod tb_count tb\<rparr>)
           else (Inr (), log_debug ''First tab'' tb))"
proof -
  from ne have pos: "0 < tb_count tb" by (simp add: tb_count_def)
  from ok have small: "tb_count tb < 2147483647" and cur: "current tb < tb_count tb"
    by (simp_all add: widget_ok_def)
  show ?thesis
  proof (cases "0 \<le> current tb - count")
    case True
    with cur c pos small show ?thesis
      by (simp add: tab_prev_def current_index_def set_current_index_in_range)
  next
    case False
    with pos small show ?thesis
      by (simp add: tab_prev_def current_index_def py_mod_pos set_current_index_in_range)
  qed
qed

subsection \<open>Relative navigation: C1 and C10\<close>

text \<open>
  C1, as the spec states it, for any count: with \<open>tabs.wrap\<close> set, three tabs and the
  first one current, \<open>tab_next\<close> with the count -1 computes the index -1, which is below
  the tab count, and hands it to the widget as it is, where the claim has it reduced to
  \<open>(0 - 1) mod 3 = 2\<close>; likewise \<open>tab_prev\<close> with the count -1 from the last tab
  hands over the index 3. Each command tests one end of the range only.
\<close>

theorem tab_next_prev_index_counterexample:
  "fst (tab_next (sample_config True SelectRightTab) (- 1) (sample_window 3 0)) = Inr () \<and>
   current (snd (tab_next (sample_config True SelectRightTab) (- 1) (sample_window 3 0))) = 0 \<and>
   (current (sample_window 3 0) + (- 1)) mod tb_count (sample_window 3 0) = 2 \<and>
   current (snd (tab_prev (sample_config True SelectRightTab) (- 1) (sample_window 3 2))) = 2 \<and>
   (current (sample_window 3 2) - (- 1)) mod tb_count (sample_window 3 2) = 0"
  by (simp add: tab_next_def tab_prev_def tb_count_def current_index_def
      set_current_index_def check_overflow_def setCurrentIndex_def sample_window_def
      sample_config_def)

text \<open>
  C1, amended: on a window with at least one tab, \<open>tab_next\<close> and \<open>tab_prev\<close> with a
  count that is not negative raise nothing, and the new current index is
  \<open>current + count\<close> (respectively \<open>current - count\<close>) when that lies in
  \<open>[0, tab_count)\<close>; otherwise it is that value modulo the tab count when
  \<open>tabs.wrap\<close> is set, and the current index stays what it was when it is not.
\<close>

theorem tab_next_prev_index:
  assumes ok: "widget_ok tb" and ne: "tabs tb \<noteq> []" and c: "0 \<le> count"
  shows "fst (tab_next cfg count tb) = Inr () \<and>
         current (snd (tab_next cfg count tb)) =
           (let v = current tb + count in
            if 0 \<le> v \<and> v < tb_count tb then v
            else if tabs_wrap cfg then v mod tb_count tb
            else current tb) \<and>
         fst (tab_prev cfg count tb) = Inr () \<and>
         current (snd (tab_prev cfg count tb)) =
           (let v = current tb - count in
            if 0 \<le> v \<and> v < tb_count tb then v
            else if tabs_wrap cfg then v mod tb_count tb
            else current tb)"
proof -
  from ok ne have cur: "0 \<le> current tb" "current tb < tb_count tb"
    by (simp_all add: widget_ok_def)
  have n: "fst (tab_next cfg count tb) = Inr () \<and>
         current (snd (tab_next cfg count tb)) =
           (let v = current tb + count in
            if 0 \<le> v \<and> v < tb_count tb then v
            else if tabs_wrap cfg then v mod tb_count tb
            else current tb)"
    using cur c by (simp add: tab_next_eval [OF ok ne c] log_debug_def Let_def)
  have p: "fst (tab_prev cfg count tb) = Inr () \<and>
         current (snd (tab_prev cfg count tb)) =
           (let v = current tb - count in
            if 0 \<le> v \<and> v < tb_count tb then v
            else if tabs_wrap cfg then v mod tb_count tb
            else current tb)"
    using cur c by (simp add: tab_prev_eval [OF ok ne c] log_debug_def Let_def)
  from n p show ?thesis by simp
qed

theorem tab_next_prev_index_witness:
  "widget_ok (sample_window 3 2) \<and> tabs (sample_window 3 2) \<noteq> [] \<and> (0::int) \<le> 2 \<and>
   current (snd (tab_next (sample_config True SelectRightTab) 2 (sample_window 3 2))) = 1 \<and>
   current (snd (tab_prev (sample_config True SelectRightTab) 4 (sample_window 3 2))) = 1 \<and>
   current (snd (tab_next (sample_config False SelectRightTab) 2 (sample_window 3 2))) = 2"
proof -
  have ok: "widget_ok (sample_window 3 2)" by (rule sample_window_ok) simp_all
  have ne: "tabs (sample_window 3 2) \<noteq> []" by (simp add: sample_window_def)
  show ?thesis
    using tab_next_prev_index [OF ok ne, of 2 "sample_config True SelectRightTab"]
      tab_next_prev_index [OF ok ne, of 4 "sample_config True SelectRightTab"]
      tab_next_prev_index [OF ok ne, of 2 "sample_config False SelectRightTab"] ok ne
    by (simp add: sample_window_def sample_config_def tb_count_def Let_def)
qed

text \<open>
  C10. On a window without tabs \<open>tab_next\<close> and \<open>tab_prev\<close> return at once: no
  exception and the state as it was. So the modulo by the tab count is never taken with a
  count of zero: on no window, for no count, does either command end in Python's
  \<open>ZeroDivisionError\<close>.
\<close>

theorem tab_next_prev_no_tabs:
  "(tabs tb = [] \<longrightarrow> tab_next cfg count tb = (Inr (), tb) \<and> tab_prev cfg count tb = (Inr (), tb))
   \<and> fst (tab_next cfg count tb) \<noteq> Inl ZeroDivisionError
   \<and> fst (tab_prev cfg count tb) \<noteq> Inl ZeroDivisionError"
  by (auto simp: tab_next_def tab_prev_def tb_count_def Let_def py_mod_def
      set_current_index_def check_overflow_def split: sum.splits)

theorem tab_next_prev_no_tabs_witness:
  "tabs (sample_window 0 (- 1)) = [] \<and>
   tab_next (sample_config True SelectRightTab) 1 (sample_window 0 (- 1))
     = (Inr (), sample_window 0 (- 1)) \<and>
   tab_prev (sample_config True SelectRightTab) 1 (sample_window 0 (- 1))
     = (Inr (), sample_window 0 (- 1))"
  using tab_next_prev_no_tabs [of "sample_window 0 (- 1)" "sample_config True SelectRightTab" 1]
  by (simp add: sample_window_def)

subsection \<open>Resolving a count: C2\<close>

lemma cntwidget_in_range:
  assumes "1 \<le> c" and "c \<le> tb_count tb" and "tb_count tb < 2147483647"
  shows "cntwidget (Some c) tb = Inr (Some (tabs tb ! nat (c - 1)))"
  using assms by (simp add: cntwidget_def check_overflow_def widget_at_def)

lemma cntwidget_out_of_range:
  assumes "\<not> (1 \<le> c \<and> c \<le> tb_count tb)"
  shows "cntwidget (Some c) tb = Inr None"
  using assms by (auto simp: cntwidget_def)

text \<open>
  C2. \<open>cntwidget\<close> returns the current tab when no count is given; for a count \<open>c\<close>
  with \<open>1 \<le> c \<le> tab_count\<close> (on a widget whose tab count the toolkit's int holds) it
  returns the tab at position \<open>c - 1\<close>, which is a position of the tab list; for every
  other \<open>c\<close> it returns \<open>None\<close> and raises nothing. When it returns \<open>None\<close>,
  \<open>tab_close\<close>, \<open>tab_pin\<close>, \<open>reloadpage\<close> and \<open>stop\<close> return without an error and
  leave the state as it was.
\<close>

theorem cntwidget_resolution:
  "cntwidget None tb = Inr (currentWidget tb) \<and>
   (1 \<le> c \<and> c \<le> tb_count tb \<and> tb_count tb < 2147483647 \<longrightarrow>
      nat (c - 1) < length (tabs tb) \<and>
      cntwidget (Some c) tb = Inr (Some (tabs tb ! nat (c - 1)))) \<and>
   (\<not> (1 \<le> c \<and> c \<le> tb_count tb) \<longrightarrow> cntwidget (Some c) tb = Inr None) \<and>
   (cntwidget count tb = Inr None \<longrightarrow>
      tab_close prev next opposite force count tb = (Inr (), tb) \<and>
      tab_pin count tb = (Inr (), tb) \<and>
      reloadpage force count tb = (Inr (), tb) \<and>
      stop count tb = (Inr (), tb))"
proof -
  have a: "cntwidget None tb = Inr (currentWidget tb)" by (simp add: cntwidget_def)
  have b: "1 \<le> c \<and> c \<le> tb_count tb \<and> tb_count tb < 2147483647 \<longrightarrow>
      nat (c - 1) < length (tabs tb) \<and>
      cntwidget (Some c) tb = Inr (Some (tabs tb ! nat (c - 1)))"
    using cntwidget_in_range [of c tb] by (auto simp: tb_count_def)
  have c: "\<not> (1 \<le> c \<and> c \<le> tb_count tb) \<longrightarrow> cntwidget (Some c) tb = Inr None"
    using cntwidget_out_of_range [of c tb] by blast
  have d: "cntwidget count tb = Inr None \<longrightarrow>
      tab_close prev next opposite force count tb = (Inr (), tb) \<and>
      tab_pin count tb = (Inr (), tb) \<and>
      reloadpage force count tb = (Inr (), tb) \<and>
      stop count tb = (Inr (), tb)"
    by (simp add: tab_close_def tab_pin_def reloadpage_def stop_def)
  from a b c d show ?thesis by blast
qed

theorem cntwidget_resolution_witness:
  "cntwidget (Some 2) (sample_window 3 0) = Inr (Some (sample_tab 1)) \<and>
   cntwidget (Some 4) (sample_window 3 0) = Inr None \<and>
   cntwidget (Some 0) (sample_window 3 0) = Inr None \<and>
   reloadpage False (Some 4) (sample_window 3 0) = (Inr (), sample_window 3 0) \<and>
   stop (Some 0) (sample_window 3 0) = (Inr (), sample_window 3 0)"
  using cntwidget_resolution [of "sample_window 3 0" 2 "Some 4" False False False False]
    cntwidget_resolution [of "sample_window 3 0" 4 "Some 0" False False False False]
    cntwidget_resolution [of "sample_window 3 0" 0 "Some 0" False False False False]
  by (simp add: sample_window_count) (simp add: sample_window_def)

subsection \<open>The destination flags of \<open>_open\<close>: C3\<close>

lemma check_exclusive_tbwp:
  "check_exclusive [tab, background, window, truthy private] ''tbwp'' =
     (if 2 \<le> flags_set tab background window private
      then Inl (CommandError ''Only one of -t/-b/-w/-p can be given!'') else Inr ())"
  by (simp add: check_exclusive_def flags_set_def truthy_def)

text \<open>
  C3. When two or more of the flags tab, background, window and private are set,
  \<open>do_open\<close> ends in a command error and has made no call: the state is the one it was
  given. For a valid URL the error is the one of the exclusive flags (an invalid URL is
  reported first, also as a command error). When at most one flag is set, the error of the
  exclusive flags is not raised.
\<close>

theorem do_open_exclusive:
  "(2 \<le> flags_set tab background window private \<longrightarrow>
      (\<exists>msg. fst (do_open url tab background window related private tb) = Inl (CommandError msg)) \<and>
      snd (do_open url tab background window related private tb) = tb \<and>
      (is_valid url \<longrightarrow> fst (do_open url tab background window related private tb)
          = Inl (CommandError ''Only one of -t/-b/-w/-p can be given!''))) \<and>
   (flags_set tab background window private \<le> 1 \<longrightarrow>
      fst (do_open url tab background window related private tb)
        \<noteq> Inl (CommandError ''Only one of -t/-b/-w/-p can be given!''))"
  by (auto simp: do_open_def check_exclusive_tbwp raise_cmdexc_if_invalid_def Let_def
        current_widget_def split: sum.splits option.splits)

theorem do_open_exclusive_witness:
  "2 \<le> flags_set True True False None \<and> is_valid sample_url \<and>
   do_open sample_url True True False False None (sample_window 2 0)
     = (Inl (CommandError ''Only one of -t/-b/-w/-p can be given!''), sample_window 2 0) \<and>
   flags_set False True False None \<le> 1 \<and>
   fst (do_open sample_url False True False False None (sample_window 2 0)) = Inr ()"
proof -
  have two: "2 \<le> flags_set True True False None" and one: "flags_set False True False None \<le> 1"
    by (simp_all add: flags_set_def)
  have valid: "is_valid sample_url" by (simp add: sample_url_def)
  have run: "fst (do_open sample_url False True False False None (sample_window 2 0)) = Inr ()"
    by (simp add: do_open_def raise_cmdexc_if_invalid_def valid check_exclusive_def truthy_def)
  from do_open_exclusive [of True True False None sample_url False "sample_window 2 0"]
    two one valid run
  show ?thesis by (simp add: prod_eq_iff)
qed

subsection \<open>The selection after closing a tab: C6\<close>

text \<open>
  C6, as the spec states it, for every call with the flag opposite set: with the flag
  prev set as well and \<open>select-left\<close> configured the helper does not return
  \<open>select-right\<close>; the exclusive flags are checked first.
\<close>

theorem get_selection_override_counterexample:
  "get_selection_override (sample_config True SelectLeftTab) True False True
     = Inl (CommandError ''Only one of -p/-n/-o can be given!'') \<and>
   get_selection_override (sample_config True SelectLeftTab) True False True
     \<noteq> Inr (Some SelectRightTab)"
  by (simp add: get_selection_override_def check_exclusive_def)

text \<open>
  C6, amended: called with the flag opposite set and neither prev nor next,
  \<open>get_selection_override\<close> returns \<open>select-right\<close> when \<open>select-left\<close> is configured,
  \<open>select-left\<close> when \<open>select-right\<close> is, and raises a command error when the
  configured behaviour is the last used tab.
\<close>

theorem get_selection_override_opposite:
  "get_selection_override cfg False False True =
     (case tabs_select_on_remove cfg of
        SelectLeftTab \<Rightarrow> Inr (Some SelectRightTab)
      | SelectRightTab \<Rightarrow> Inr (Some SelectLeftTab)
      | SelectPreviousTab \<Rightarrow>
          Inl (CommandError (''-o is not supported with '' @ quoted ''tabs.select_on_remove''
                             @ '' set to '' @ quoted ''last-used'' @ ''!'')))"
  by (simp add: get_selection_override_def check_exclusive_def)

subsection \<open>Several lines given to \<open>open\<close>: C4\<close>

lemma parse_url_fst: "fst (parse_url env u fs tb) = fst (parse_url env u fs tb')"
  by (simp add: parse_url_def split: option.splits sum.splits)

lemma parse_urls_fst:
  "fst (parse_urls env fs ls tb) = List.map_filter (\<lambda>u. fst (parse_url env u fs tb0)) ls"
proof (induction ls arbitrary: tb)
  case Nil
  show ?case by simp
next
  case (Cons l ls)
  obtain r tb1 where p: "parse_url env l fs tb = (r, tb1)" by (cases "parse_url env l fs tb")
  with parse_url_fst [of env l fs tb0 tb] have r: "fst (parse_url env l fs tb0) = r" by simp
  obtain us tb2 where q: "parse_urls env fs ls tb1 = (us, tb2)"
    by (cases "parse_urls env fs ls tb1")
  with Cons.IH [of tb1] have us: "List.map_filter (\<lambda>u. fst (parse_url env u fs tb0)) ls = us"
    by simp
  show ?case
    by (cases r) (simp_all add: p q r us)
qed

text \<open>
  C4. Let the input be a text with more than one non-blank line. When the first of its
  non-blank lines is neither a URL (\<open>is_url\<close>) nor an existing path
  (\<open>get_path_if_valid\<close>), \<open>parse_url_input\<close> does not split it: what it yields is the
  resolution of the whole text with the search forced, one URL (or none, when the text does
  not resolve). In every other case it yields the resolutions, without forced search, of the
  non-blank lines in their order, the lines that do not resolve left out.
\<close>

theorem parse_url_input_multiline:
  "(length (non_blank_lines s) > 1 \<and> \<not> is_url env (hd (non_blank_lines s))
      \<and> get_path_if_valid env (hd (non_blank_lines s)) = None \<longrightarrow>
      fst (parse_url_input env (UrlText s) tb) =
        (case fst (parse_url env s True tb) of None \<Rightarrow> [] | Some u \<Rightarrow> [u])) \<and>
   (\<not> (length (non_blank_lines s) > 1 \<and> \<not> is_url env (hd (non_blank_lines s))
      \<and> get_path_if_valid env (hd (non_blank_lines s)) = None) \<longrightarrow>
      fst (parse_url_input env (UrlText s) tb) =
        List.map_filter (\<lambda>line. fst (parse_url env line False tb)) (non_blank_lines s))"
proof (cases "length (non_blank_lines s) > 1 \<and> \<not> is_url env (hd (non_blank_lines s))
      \<and> get_path_if_valid env (hd (non_blank_lines s)) = None")
  case True
  then have "url_plan env s = (True, [s])" by (simp add: url_plan_def)
  then have "fst (parse_url_input env (UrlText s) tb)
      = List.map_filter (\<lambda>u. fst (parse_url env u True tb)) [s]"
    by (simp add: parse_url_input_def parse_urls_fst [of env True "[s]" tb tb] del: parse_urls.simps)
  with True show ?thesis by (auto split: option.splits)
next
  case False
  then have "url_plan env s = (False, non_blank_lines s)" by (auto simp: url_plan_def)
  then have "fst (parse_url_input env (UrlText s) tb)
      = List.map_filter (\<lambda>u. fst (parse_url env u False tb)) (non_blank_lines s)"
    by (simp add: parse_url_input_def parse_urls_fst [of env False _ tb tb])
  with False show ?thesis by auto
qed

lemma non_blank_lines_abc: "non_blank_lines sample_text_abc = [''a'', ''b'', ''c'']"
  by (simp add: non_blank_lines_def sample_text_abc_def strip_def py_isspace_def)

lemma non_blank_lines_urls: "non_blank_lines sample_text_urls = [''https://a.org'', ''b'']"
  by (simp add: non_blank_lines_def sample_text_urls_def strip_def py_isspace_def)

theorem parse_url_input_multiline_witness:
  "non_blank_lines sample_text_abc = [''a'', ''b'', ''c''] \<and>
   \<not> is_url sample_env ''a'' \<and> get_path_if_valid sample_env ''a'' = None \<and>
   fst (parse_url_input sample_env (UrlText sample_text_abc) (sample_window 1 0)) =
     [\<lparr>scheme = ''https'', url_string = ''https://search.example/?q='' @ sample_text_abc,
       is_valid = True, error_string = []\<rparr>] \<and>
   non_blank_lines sample_text_urls = [''https://a.org'', ''b''] \<and>
   is_url sample_env ''https://a.org'' \<and>
   fst (parse_url_input sample_env (UrlText sample_text_urls) (sample_window 1 0)) =
     [\<lparr>scheme = ''https'', url_string = ''https://a.org'', is_valid = True, error_string = []\<rparr>,
      \<lparr>scheme = ''https'', url_string = ''b'', is_valid = True, error_string = []\<rparr>]"
  using parse_url_input_multiline [of sample_text_abc sample_env "sample_window 1 0"]
    parse_url_input_multiline [of sample_text_urls sample_env "sample_window 1 0"]
  by (simp add: non_blank_lines_abc non_blank_lines_urls)
     (simp add: sample_env_def parse_url_def)

subsection \<open>Searching: C5 and C8\<close>

lemma calls_tab_update [simp]: "calls (tab_update i f tb) = calls tb"
  by (simp add: tab_update_def)

lemma search_next_issued:
  assumes cur: "current_widget tb = Inr tab" and st: "search_text tb = Some text"
    and so: "search_options tb = Some options"
  shows "fst (search_next count tb) = Inr ()"
    and "issued_calls tb (snd (search_next count tb)) =
           SetMark [CHR 0x27] #
           (if tab_search_text tab = Some text
            then result_steps (NextResult (tab_id tab)) count (continuation_cb tab text options False)
            else [SearchClear (tab_id tab), Search (tab_id tab) text options None]
                 @ result_steps (NextResult (tab_id tab)) (count - 1)
                     (continuation_cb tab text options False))"
  using assms
  by (auto simp: search_next_def research_def set_mark_def log_call_def tab_search_clear_def
      tab_search_search_def issued_calls_def result_steps_def continuation_cb_def Let_def)

lemma search_prev_issued:
  assumes cur: "current_widget tb = Inr tab" and st: "search_text tb = Some text"
    and so: "search_options tb = Some options"
  shows "fst (search_prev count tb) = Inr ()"
    and "issued_calls tb (snd (search_prev count tb)) =
           SetMark [CHR 0x27] #
           (if tab_search_text tab = Some text
            then result_steps (PrevResult (tab_id tab)) count (continuation_cb tab text options True)
            else [SearchClear (tab_id tab), Search (tab_id tab) text options None]
                 @ result_steps (PrevResult (tab_id tab)) (count - 1)
                     (continuation_cb tab text options True))"
  using assms
  by (auto simp: search_prev_def research_def set_mark_def log_call_def tab_search_clear_def
      tab_search_search_def issued_calls_def result_steps_def continuation_cb_def Let_def)

lemma search_cb_continuation:
  "search_cb True y (continuation_cb tab text options False) =
     Inr (if \<not> opt_reverse options \<and> y < pos_px_y tab
            then Some (MessageInfo ''Search hit BOTTOM, continuing at TOP'')
          else if opt_reverse options \<and> y > pos_px_y tab
            then Some (MessageInfo ''Search hit TOP, continuing at BOTTOM'')
          else None)"
  "search_cb True y (continuation_cb tab text options True) =
     Inr (if opt_reverse options \<and> y < pos_px_y tab
            then Some (MessageInfo ''Search hit BOTTOM, continuing at TOP'')
          else if \<not> opt_reverse options \<and> y > pos_px_y tab
            then Some (MessageInfo ''Search hit TOP, continuing at BOTTOM'')
          else None)"
  by (simp_all add: search_cb_def continuation_cb_def going_up_def)

lemma current_widget_tab_update:
  assumes "current_widget tb = Inr tab"
  shows "current_widget (tab_update (tab_id tab) f tb) = Inr (f tab)"
  using assms
  by (auto simp: current_widget_def currentWidget_def widget_at_def tab_update_def tb_count_def
      split: option.splits if_splits)

lemma current_widget_cong:
  "tabs tb' = tabs tb \<Longrightarrow> current tb' = current tb \<Longrightarrow> current_widget tb' = current_widget tb"
  by (simp add: current_widget_def currentWidget_def widget_at_def tb_count_def)

lemma current_widget_log_call [simp]: "current_widget (log_call c tb) = current_widget tb"
  by (simp add: current_widget_def currentWidget_def widget_at_def log_call_def tb_count_def)

lemma search_effect:
  assumes cur: "current_widget tb = Inr tab" and ne: "text \<noteq> []"
  shows "fst (search cfg text reverse tb) = Inr ()"
    and "search_text (snd (search cfg text reverse tb)) = Some text"
    and "search_options (snd (search cfg text reverse tb))
           = Some \<lparr>opt_ignore_case = search_ignore_case cfg, opt_reverse = reverse\<rparr>"
    and "current_widget (snd (search cfg text reverse tb))
           = Inr (tab\<lparr>tab_search_text := Some text, search_displayed := True\<rparr>)"
    and "issued_calls tb (snd (search cfg text reverse tb))
           = [SetMark [CHR 0x27],
              Search (tab_id tab) text
                \<lparr>opt_ignore_case = search_ignore_case cfg, opt_reverse = reverse\<rparr>
                (Some (continuation_cb tab text
                   \<lparr>opt_ignore_case = search_ignore_case cfg, opt_reverse = reverse\<rparr> False))]"
proof -
  let ?options = "\<lparr>opt_ignore_case = search_ignore_case cfg, opt_reverse = reverse\<rparr>"
  let ?cb = "continuation_cb tab text ?options False"
  let ?tb2 = "(set_mark [CHR 0x27] tb)\<lparr>search_text := Some text, search_options := Some ?options\<rparr>"
  have cur1: "current_widget (set_mark [CHR 0x27] tb) = Inr tab"
    using cur by (simp add: set_mark_def)
  have s: "search cfg text reverse tb
             = (Inr (), tab_search_search (tab_id tab) text ?options (Some ?cb) ?tb2)"
    using ne by (simp add: search_def cur1 Let_def continuation_cb_def)
  have cur2: "current_widget ?tb2 = Inr tab"
    using cur1 current_widget_cong [of ?tb2 "set_mark [CHR 0x27] tb"] by simp
  show "fst (search cfg text reverse tb) = Inr ()" by (simp add: s)
  show "search_text (snd (search cfg text reverse tb)) = Some text"
    by (simp add: s tab_search_search_def log_call_def tab_update_def)
  show "search_options (snd (search cfg text reverse tb)) = Some ?options"
    by (simp add: s tab_search_search_def log_call_def tab_update_def)
  show "current_widget (snd (search cfg text reverse tb))
           = Inr (tab\<lparr>tab_search_text := Some text, search_displayed := True\<rparr>)"
    using current_widget_tab_update [OF cur2] by (simp add: s tab_search_search_def)
  show "issued_calls tb (snd (search cfg text reverse tb))
          = [SetMark [CHR 0x27], Search (tab_id tab) text ?options (Some ?cb)]"
    by (simp add: s tab_search_search_def log_call_def set_mark_def issued_calls_def)
qed

lemma sample_switched_eq:
  "sample_switched =
     \<lparr>tabs = [(sample_tab 0)\<lparr>tab_search_text := Some ''foo'', search_displayed := True\<rparr>,
              sample_tab 1],
      current = 1, is_private = False, search_text = Some ''foo'',
      search_options = Some \<lparr>opt_ignore_case = Smart, opt_reverse = False\<rparr>,
      debug_log = [],
      calls = [SetMark [CHR 0x27],
               Search 0 ''foo'' \<lparr>opt_ignore_case = Smart, opt_reverse = False\<rparr>
                 (Some (continuation_cb (sample_tab 0) ''foo''
                    \<lparr>opt_ignore_case = Smart, opt_reverse = False\<rparr> False))]\<rparr>"
  by (simp add: sample_switched_def search_def set_mark_def log_call_def current_widget_def
      currentWidget_def widget_at_def tb_count_def sample_window_def sample_config_def
      tab_search_search_def tab_update_def sample_tab_def continuation_cb_def Let_def
      tab_next_def current_index_def set_current_index_def check_overflow_def
      setCurrentIndex_def upt_rec numeral_2_eq_2)

lemma sample_switched_facts:
  "current_widget sample_switched = Inr (sample_tab 1)"
  "search_text sample_switched = Some ''foo''"
  "search_options sample_switched = Some \<lparr>opt_ignore_case = Smart, opt_reverse = False\<rparr>"
  "tab_search_text (sample_tab 1) = None" "tab_id (sample_tab 1) = 1"
  by (simp_all add: sample_switched_eq current_widget_def currentWidget_def widget_at_def
      tb_count_def sample_tab_def)

text \<open>
  C5, as the spec states it, the direction of every continuation being the exclusive or of
  the flag of the call and the stored direction: \<^verbatim>\<open>foo\<close> has been searched forwards and the
  current tab is one that has not searched it. There \<open>search_prev\<close> with the count 1
  does what \<open>search_next\<close> does: it issues the search again with the stored options, that
  is forwards, and steps to no previous result, while the exclusive or of the stored
  \<open>reverse = False\<close> and its flag \<open>prev = True\<close> is the direction up.
\<close>

theorem search_continuation_calls_counterexample:
  "current_widget sample_switched = Inr (sample_tab 1) \<and>
   search_text sample_switched = Some ''foo'' \<and>
   search_options sample_switched = Some \<lparr>opt_ignore_case = Smart, opt_reverse = False\<rparr> \<and>
   issued_calls sample_switched (snd (search_prev 1 sample_switched)) =
     [SetMark [CHR 0x27], SearchClear 1,
      Search 1 ''foo'' \<lparr>opt_ignore_case = Smart, opt_reverse = False\<rparr> None] \<and>
   search_prev 1 sample_switched = search_next 1 sample_switched \<and>
   going_up \<lparr>opt_ignore_case = Smart, opt_reverse = False\<rparr> True \<and>
   opt_reverse \<lparr>opt_ignore_case = Smart, opt_reverse = False\<rparr>
     \<noteq> going_up \<lparr>opt_ignore_case = Smart, opt_reverse = False\<rparr> True"
proof -
  have same: "search_prev 1 sample_switched = search_next 1 sample_switched"
    by (simp add: search_prev_def search_next_def research_def sample_switched_facts(1-3) Let_def
        sample_tab_def)
  have issued: "issued_calls sample_switched (snd (search_prev 1 sample_switched)) =
     [SetMark [CHR 0x27], SearchClear 1,
      Search 1 ''foo'' \<lparr>opt_ignore_case = Smart, opt_reverse = False\<rparr> None]"
    by (simp add: search_prev_issued [OF sample_switched_facts(1-3)] result_steps_def
        sample_tab_def)
  have xor: "going_up \<lparr>opt_ignore_case = Smart, opt_reverse = False\<rparr> True"
    by (simp add: going_up_def)
  from same issued xor sample_switched_facts(1-3) show ?thesis by simp
qed

text \<open>
  C5, amended. In a window with a current tab and a stored search, \<open>search_next\<close> and
  \<open>search_prev\<close> set the mark and raise nothing. When the tab has searched the stored
  text, \<open>search_next\<close> calls \<open>next_result\<close> and \<open>search_prev\<close> calls
  \<open>prev_result\<close> (not at all for the count zero, else count times and at least
  once), the last time with a callback that holds the stored
  options and the flag \<open>prev\<close> (\<open>False\<close> for \<open>search_next\<close>, \<open>True\<close> for
  \<open>search_prev\<close>); the direction this callback reports by is the exclusive or of the
  stored \<open>reverse\<close> and \<open>prev\<close>: the callback of \<open>search_next\<close> reports the bottom
  hit when the stored search goes forwards and the top hit when it goes backwards, the one
  of \<open>search_prev\<close> the other way round. When the tab has not searched the stored text,
  the search is first issued again with the stored options, whatever the flag of the call,
  and that uses up one of the count. In particular, a search with \<open>reverse = False\<close>
  followed at once by \<open>search_next\<close> with a count other than zero calls
  \<open>next_result\<close> only, its callback reporting downwards as the callback of the search does.
\<close>

theorem search_continuation_calls:
  "(current_widget tb = Inr tab \<and> search_text tb = Some text \<and> search_options tb = Some options \<longrightarrow>
      fst (search_next count tb) = Inr () \<and>
      issued_calls tb (snd (search_next count tb)) =
        SetMark [CHR 0x27] #
        (if tab_search_text tab = Some text
         then result_steps (NextResult (tab_id tab)) count (continuation_cb tab text options False)
         else [SearchClear (tab_id tab), Search (tab_id tab) text options None]
              @ result_steps (NextResult (tab_id tab)) (count - 1)
                  (continuation_cb tab text options False)) \<and>
      fst (search_prev count tb) = Inr () \<and>
      issued_calls tb (snd (search_prev count tb)) =
        SetMark [CHR 0x27] #
        (if tab_search_text tab = Some text
         then result_steps (PrevResult (tab_id tab)) count (continuation_cb tab text options True)
         else [SearchClear (tab_id tab), Search (tab_id tab) text options None]
              @ result_steps (PrevResult (tab_id tab)) (count - 1)
                  (continuation_cb tab text options True)) \<and>
      search_cb True y (continuation_cb tab text options False) =
        Inr (if \<not> opt_reverse options \<and> y < pos_px_y tab
               then Some (MessageInfo ''Search hit BOTTOM, continuing at TOP'')
             else if opt_reverse options \<and> y > pos_px_y tab
               then Some (MessageInfo ''Search hit TOP, continuing at BOTTOM'')
             else None) \<and>
      search_cb True y (continuation_cb tab text options True) =
        Inr (if opt_reverse options \<and> y < pos_px_y tab
               then Some (MessageInfo ''Search hit BOTTOM, continuing at TOP'')
             else if \<not> opt_reverse options \<and> y > pos_px_y tab
               then Some (MessageInfo ''Search hit TOP, continuing at BOTTOM'')
             else None)) \<and>
   (current_widget tb = Inr tab \<and> text \<noteq> [] \<and> count \<noteq> 0 \<longrightarrow>
      issued_calls tb (snd (search cfg text False tb)) =
        [SetMark [CHR 0x27],
         Search (tab_id tab) text \<lparr>opt_ignore_case = search_ignore_case cfg, opt_reverse = False\<rparr>
           (Some (continuation_cb tab text
              \<lparr>opt_ignore_case = search_ignore_case cfg, opt_reverse = False\<rparr> False))] \<and>
      issued_calls (snd (search cfg text False tb))
          (snd (search_next count (snd (search cfg text False tb)))) =
        SetMark [CHR 0x27] #
        replicate (nat (count - 1)) (NextResult (tab_id tab) None) @
        [NextResult (tab_id tab)
           (Some (continuation_cb tab text
              \<lparr>opt_ignore_case = search_ignore_case cfg, opt_reverse = False\<rparr> False))] \<and>
      search_cb True y (continuation_cb tab text
          \<lparr>opt_ignore_case = search_ignore_case cfg, opt_reverse = False\<rparr> False) =
        Inr (if y < pos_px_y tab then Some (MessageInfo ''Search hit BOTTOM, continuing at TOP'')
             else None))"
proof -
  have general: "fst (search_next count tb) = Inr () \<and>
      issued_calls tb (snd (search_next count tb)) =
        SetMark [CHR 0x27] #
        (if tab_search_text tab = Some text
         then result_steps (NextResult (tab_id tab)) count (continuation_cb tab text options False)
         else [SearchClear (tab_id tab), Search (tab_id tab) text options None]
              @ result_steps (NextResult (tab_id tab)) (count - 1)
                  (continuation_cb tab text options False)) \<and>
      fst (search_prev count tb) = Inr () \<and>
      issued_calls tb (snd (search_prev count tb)) =
        SetMark [CHR 0x27] #
        (if tab_search_text tab = Some text
         then result_steps (PrevResult (tab_id tab)) count (continuation_cb tab text options True)
         else [SearchClear (tab_id tab), Search (tab_id tab) text options None]
              @ result_steps (PrevResult (tab_id tab)) (count - 1)
                  (continuation_cb tab text options True))"
    if "current_widget tb = Inr tab" "search_text tb = Some text" "search_options tb = Some options"
    using search_next_issued [OF that, of count] search_prev_issued [OF that, of count]
    by simp
  have scenario: "issued_calls tb (snd (search cfg text False tb)) =
        [SetMark [CHR 0x27],
         Search (tab_id tab) text \<lparr>opt_ignore_case = search_ignore_case cfg, opt_reverse = False\<rparr>
           (Some (continuation_cb tab text
              \<lparr>opt_ignore_case = search_ignore_case cfg, opt_reverse = False\<rparr> False))] \<and>
      issued_calls (snd (search cfg text False tb))
          (snd (search_next count (snd (search cfg text False tb)))) =
        SetMark [CHR 0x27] #
        replicate (nat (count - 1)) (NextResult (tab_id tab) None) @
        [NextResult (tab_id tab)
           (Some (continuation_cb tab text
              \<lparr>opt_ignore_case = search_ignore_case cfg, opt_reverse = False\<rparr> False))]"
    if cur: "current_widget tb = Inr tab" and ne: "text \<noteq> []" and c: "count \<noteq> 0"
  proof -
    let ?options = "\<lparr>opt_ignore_case = search_ignore_case cfg, opt_reverse = False\<rparr>"
    let ?tab1 = "tab\<lparr>tab_search_text := Some text, search_displayed := True\<rparr>"
    note eff = search_effect [OF cur ne, of cfg False]
    have same: "continuation_cb ?tab1 text ?options False = continuation_cb tab text ?options False"
      by (simp add: continuation_cb_def)
    note sn = search_next_issued [OF eff(4) eff(2) eff(3), of count]
    from sn(2) c same eff(5) show ?thesis by (simp add: result_steps_def)
  qed
  from general scenario search_cb_continuation [of y tab "text"]
  show ?thesis by simp
qed

theorem search_continuation_calls_witness:
  "current_widget sample_searched
     = Inr ((sample_tab 0)\<lparr>tab_search_text := Some ''foo'', search_displayed := True\<rparr>) \<and>
   search_text sample_searched = Some ''foo'' \<and>
   search_options sample_searched = Some \<lparr>opt_ignore_case = Smart, opt_reverse = True\<rparr> \<and>
   issued_calls sample_searched (snd (search_next 2 sample_searched)) =
     [SetMark [CHR 0x27], NextResult 0 None,
      NextResult 0 (Some (continuation_cb (sample_tab 0) ''foo''
                            \<lparr>opt_ignore_case = Smart, opt_reverse = True\<rparr> False))] \<and>
   issued_calls sample_searched (snd (search_prev 2 sample_searched)) =
     [SetMark [CHR 0x27], PrevResult 0 None,
      PrevResult 0 (Some (continuation_cb (sample_tab 0) ''foo''
                            \<lparr>opt_ignore_case = Smart, opt_reverse = True\<rparr> True))] \<and>
   search_cb True 5 (continuation_cb (sample_tab 0) ''foo''
                       \<lparr>opt_ignore_case = Smart, opt_reverse = True\<rparr> False)
     = Inr (Some (MessageInfo ''Search hit TOP, continuing at BOTTOM'')) \<and>
   search_cb True 5 (continuation_cb (sample_tab 0) ''foo''
                       \<lparr>opt_ignore_case = Smart, opt_reverse = True\<rparr> True)
     = Inr None \<and>
   current_widget sample_switched = Inr (sample_tab 1) \<and>
   issued_calls sample_switched (snd (search_next 2 sample_switched)) =
     [SetMark [CHR 0x27], SearchClear 1,
      Search 1 ''foo'' \<lparr>opt_ignore_case = Smart, opt_reverse = False\<rparr> None,
      NextResult 1 (Some (continuation_cb (sample_tab 1) ''foo''
                            \<lparr>opt_ignore_case = Smart, opt_reverse = False\<rparr> False))] \<and>
   current_widget (sample_window 2 0) = Inr (sample_tab 0) \<and>
   issued_calls (snd (search (sample_config True SelectRightTab) ''foo'' False (sample_window 2 0)))
     (snd (search_next 1
            (snd (search (sample_config True SelectRightTab) ''foo'' False (sample_window 2 0)))))
     = [SetMark [CHR 0x27],
        NextResult 0 (Some (continuation_cb (sample_tab 0) ''foo''
                              \<lparr>opt_ignore_case = Smart, opt_reverse = False\<rparr> False))]"
proof -
  let ?tab = "(sample_tab 0)\<lparr>tab_search_text := Some ''foo'', search_displayed := True\<rparr>"
  let ?up = "\<lparr>opt_ignore_case = Smart, opt_reverse = True\<rparr>"
  let ?down = "\<lparr>opt_ignore_case = Smart, opt_reverse = False\<rparr>"
  let ?cfg = "sample_config True SelectRightTab"
  have cur: "current_widget sample_searched = Inr ?tab"
    by (simp add: sample_searched_def current_widget_def currentWidget_def widget_at_def
        tb_count_def)
  have st: "search_text sample_searched = Some ''foo''"
    and so: "search_options sample_searched = Some ?up"
    by (simp_all add: sample_searched_def)
  from search_continuation_calls [of sample_searched ?tab "''foo''" ?up 2 5 ?cfg] cur st so
  have a: "issued_calls sample_searched (snd (search_next 2 sample_searched)) =
       [SetMark [CHR 0x27], NextResult 0 None,
        NextResult 0 (Some (continuation_cb (sample_tab 0) ''foo'' ?up False))] \<and>
     issued_calls sample_searched (snd (search_prev 2 sample_searched)) =
       [SetMark [CHR 0x27], PrevResult 0 None,
        PrevResult 0 (Some (continuation_cb (sample_tab 0) ''foo'' ?up True))] \<and>
     search_cb True 5 (continuation_cb (sample_tab 0) ''foo'' ?up False)
       = Inr (Some (MessageInfo ''Search hit TOP, continuing at BOTTOM'')) \<and>
     search_cb True 5 (continuation_cb (sample_tab 0) ''foo'' ?up True) = Inr None"
    by (simp add: result_steps_def sample_tab_def continuation_cb_def)
  from search_continuation_calls [of sample_switched "sample_tab 1" "''foo''" ?down 2 5 ?cfg]
    sample_switched_facts(1-3)
  have b: "issued_calls sample_switched (snd (search_next 2 sample_switched)) =
     [SetMark [CHR 0x27], SearchClear 1, Search 1 ''foo'' ?down None,
      NextResult 1 (Some (continuation_cb (sample_tab 1) ''foo'' ?down False))]"
    by (simp add: result_steps_def sample_tab_def continuation_cb_def)
  have cur0: "current_widget (sample_window 2 0) = Inr (sample_tab 0)"
    by (simp add: sample_window_def current_widget_def currentWidget_def widget_at_def
        tb_count_def)
  from search_continuation_calls [of "sample_window 2 0" "sample_tab 0" "''foo''" ?down 1 5 ?cfg]
    cur0
  have c: "issued_calls (snd (search ?cfg ''foo'' False (sample_window 2 0)))
     (snd (search_next 1 (snd (search ?cfg ''foo'' False (sample_window 2 0)))))
     = [SetMark [CHR 0x27],
        NextResult 0 (Some (continuation_cb (sample_tab 0) ''foo'' ?down False))]"
    by (simp add: sample_config_def sample_tab_def continuation_cb_def)
  from cur st so a b sample_switched_facts(1) cur0 c show ?thesis by simp
qed

text \<open>
  C8, as the spec states it, with the message \<^verbatim>\<open>No search done yet.\<close>: in a window without
  tabs where nothing has been searched, \<open>search_next\<close> raises the error of the missing
  current tab; the current tab is asked for first.
\<close>

theorem search_no_search_yet_counterexample:
  "search_text (sample_window 0 (- 1)) = None \<and>
   fst (search_next 1 (sample_window 0 (- 1))) = Inl (CommandError ''No WebView available yet!'') \<and>
   fst (search_next 1 (sample_window 0 (- 1))) \<noteq> Inl (CommandError ''No search done yet.'')"
  by (simp add: search_next_def current_widget_def currentWidget_def widget_at_def
      sample_window_def tb_count_def)

text \<open>
  C8, amended: when the window's search text is \<open>None\<close>, \<open>search_next\<close> and
  \<open>search_prev\<close> raise a command error and leave the whole state of the window as it was
  (its search state, the scroll positions of its tabs, the calls made to the toolkit: no
  search is issued); the message is \<^verbatim>\<open>No search done yet.\<close> when the window has a current
  tab and \<^verbatim>\<open>No WebView available yet!\<close> when it has none.
\<close>

theorem search_no_search_yet:
  assumes "search_text tb = None"
  shows "search_next count tb =
           (Inl (CommandError (if currentWidget tb = None then ''No WebView available yet!''
                               else ''No search done yet.'')), tb) \<and>
         search_prev count tb =
           (Inl (CommandError (if currentWidget tb = None then ''No WebView available yet!''
                               else ''No search done yet.'')), tb)"
  using assms
  by (auto simp: search_next_def search_prev_def current_widget_def split: option.splits)

theorem search_no_search_yet_witness:
  "search_text (sample_window 2 0) = None \<and>
   search_next 1 (sample_window 2 0)
     = (Inl (CommandError ''No search done yet.''), sample_window 2 0) \<and>
   search_prev 1 (sample_window 2 0)
     = (Inl (CommandError ''No search done yet.''), sample_window 2 0)"
proof -
  have none: "search_text (sample_window 2 0) = None" by (simp add: sample_window_def)
  have cur: "currentWidget (sample_window 2 0) = Some (sample_tab 0)"
    by (simp add: sample_window_def currentWidget_def widget_at_def tb_count_def)
  from search_no_search_yet [OF none, of 1] none cur show ?thesis by simp
qed

subsection \<open>Moving the current tab: C9\<close>

lemma move_elem_front:
  assumes "k < length xs"
  shows "move_elem k 0 xs = (xs ! k) # take k xs @ drop (Suc k) xs"
  by (simp add: move_elem_def)

lemma head_drop_one: "xs \<noteq> [] \<Longrightarrow> (xs ! 0) # drop (Suc 0) xs = xs"
  by (cases xs) simp_all

lemma tab_move_first:
  assumes ok: "widget_ok tb" and ne: "tabs tb \<noteq> []"
  shows "tab_move cfg None None tb =
           (Inr (), tb\<lparr>tabs := (tabs tb ! nat (current tb))
                              # take (nat (current tb)) (tabs tb)
                              @ drop (Suc (nat (current tb))) (tabs tb),
                       current := 0\<rparr>)"
proof -
  from ok ne have cur: "0 \<le> current tb" "current tb < tb_count tb"
    and small: "tb_count tb < 2147483647"
    by (simp_all add: widget_ok_def)
  from ne have pos: "0 < tb_count tb" by (simp add: tb_count_def)
  have run: "tab_move cfg None None tb = (Inr (), moveTab (current tb) 0 tb)"
    using cur small pos by (simp add: tab_move_def current_index_def check_overflow_def)
  show ?thesis
  proof (cases "current tb = 0")
    case True
    with ne show ?thesis by (simp add: run moveTab_def head_drop_one)
  next
    case False
    with cur pos have "moveTab (current tb) 0 tb =
        tb\<lparr>tabs := move_elem (nat (current tb)) 0 (tabs tb), current := 0\<rparr>"
      by (simp add: moveTab_def)
    moreover from cur have "nat (current tb) < length (tabs tb)" by (simp add: tb_count_def)
    ultimately show ?thesis by (simp add: run move_elem_front)
  qed
qed

lemma tab_move_out_of_range:
  assumes "index \<noteq> Some Plus" and "index \<noteq> Some Minus"
    and "target = (case count of Some c \<Rightarrow> c
                   | None \<Rightarrow> (case index of Some (Position i) \<Rightarrow> if i \<ge> 0 then i else i + tb_count tb + 1
                              | _ \<Rightarrow> 1))"
    and "\<not> (1 \<le> target \<and> target \<le> tb_count tb)"
  shows "tab_move cfg index count tb =
           (Inl (CommandError (''Can'' @ [CHR 0x27] @ ''t move tab to position ''
                               @ str_int target @ ''!'')), tb)"
  using assms
  by (auto simp: tab_move_def split: option.splits move_index.splits)

text \<open>
  C9. On a window with at least one tab, \<open>tab_move\<close> without index and without count
  raises nothing and moves the current tab to the first position: it is the first of the
  tabs afterwards, the others keep their order, and it is still the current tab. An absolute
  move (the index neither \<^verbatim>\<open>+\<close> nor \<^verbatim>\<open>-\<close>) whose target position lies outside
  \<open>[1, tab_count]\<close> raises a command error and leaves the window as it was; the target is
  the count when there is one, else the index (a negative index counts from the end), else
  the first position.
\<close>

theorem tab_move_first_position:
  "(widget_ok tb \<and> tabs tb \<noteq> [] \<longrightarrow>
      fst (tab_move cfg None None tb) = Inr () \<and>
      tabs (snd (tab_move cfg None None tb)) =
        (tabs tb ! nat (current tb)) # take (nat (current tb)) (tabs tb)
          @ drop (Suc (nat (current tb))) (tabs tb) \<and>
      current (snd (tab_move cfg None None tb)) = 0) \<and>
   (index \<noteq> Some Plus \<and> index \<noteq> Some Minus \<and>
    target = (case count of
                Some c \<Rightarrow> c
              | None \<Rightarrow> (case index of
                           Some (Position i) \<Rightarrow> if i \<ge> 0 then i else i + tb_count tb + 1
                         | _ \<Rightarrow> 1)) \<and>
    \<not> (1 \<le> target \<and> target \<le> tb_count tb) \<longrightarrow>
      tab_move cfg index count tb =
        (Inl (CommandError (''Can'' @ [CHR 0x27] @ ''t move tab to position ''
                            @ str_int target @ ''!'')), tb))"
proof -
  have first: "widget_ok tb \<and> tabs tb \<noteq> [] \<longrightarrow>
      fst (tab_move cfg None None tb) = Inr () \<and>
      tabs (snd (tab_move cfg None None tb)) =
        (tabs tb ! nat (current tb)) # take (nat (current tb)) (tabs tb)
          @ drop (Suc (nat (current tb))) (tabs tb) \<and>
      current (snd (tab_move cfg None None tb)) = 0"
    by (simp add: tab_move_first)
  from first
    tab_move_out_of_range [where index = index and target = target and count = count
      and tb = tb and cfg = cfg]
  show ?thesis by blast
qed

theorem tab_move_first_position_witness:
  "widget_ok (sample_window 4 2) \<and> tabs (sample_window 4 2) \<noteq> [] \<and>
   fst (tab_move (sample_config True SelectRightTab) None None (sample_window 4 2)) = Inr () \<and>
   tabs (snd (tab_move (sample_config True SelectRightTab) None None (sample_window 4 2)))
     = [sample_tab 2, sample_tab 0, sample_tab 1, sample_tab 3] \<and>
   current (snd (tab_move (sample_config True SelectRightTab) None None (sample_window 4 2))) = 0 \<and>
   tab_move (sample_config True SelectRightTab) None (Some 5) (sample_window 4 2)
     = (Inl (CommandError (''Can'' @ [CHR 0x27] @ ''t move tab to position 5!'')),
        sample_window 4 2) \<and>
   tab_move (sample_config True SelectRightTab) (Some (Position 0)) None (sample_window 4 2)
     = (Inl (CommandError (''Can'' @ [CHR 0x27] @ ''t move tab to position 0!'')),
        sample_window 4 2)"
proof -
  let ?cfg = "sample_config True SelectRightTab"
  have ok: "widget_ok (sample_window 4 2)" by (rule sample_window_ok) simp_all
  have ne: "tabs (sample_window 4 2) \<noteq> []" by (simp add: sample_window_def)
  have tabs4: "tabs (sample_window 4 2) = [sample_tab 0, sample_tab 1, sample_tab 2, sample_tab 3]"
    by (simp add: sample_window_def upt_rec numeral_2_eq_2 numeral_3_eq_3)
  have cur: "current (sample_window 4 2) = 2" by (simp add: sample_window_def)
  from tab_move_first_position [of "sample_window 4 2" ?cfg None 1 None] ok ne
  have a: "fst (tab_move ?cfg None None (sample_window 4 2)) = Inr () \<and>
      tabs (snd (tab_move ?cfg None None (sample_window 4 2)))
        = [sample_tab 2, sample_tab 0, sample_tab 1, sample_tab 3] \<and>
      current (snd (tab_move ?cfg None None (sample_window 4 2))) = 0"
    by (simp add: tabs4 cur)
  from tab_move_first_position [of "sample_window 4 2" ?cfg None 5 "Some 5"]
  have b: "tab_move ?cfg None (Some 5) (sample_window 4 2)
     = (Inl (CommandError (''Can'' @ [CHR 0x27] @ ''t move tab to position 5!'')),
        sample_window 4 2)"
    by (simp add: sample_window_count str_int_def digit_char_def)
  from tab_move_first_position [of "sample_window 4 2" ?cfg "Some (Position 0)" 0 None]
  have c: "tab_move ?cfg (Some (Position 0)) None (sample_window 4 2)
     = (Inl (CommandError (''Can'' @ [CHR 0x27] @ ''t move tab to position 0!'')),
        sample_window 4 2)"
    by (simp add: sample_window_count str_int_def digit_char_def)
  from ok ne a b c show ?thesis by simp
qed

subsection \<open>Selecting a tab of any window: C7\<close>

lemma index_of_nth:
  assumes "distinct (map tab_id ts)" and "k < length ts"
  shows "index_of (tab_id (ts ! k)) ts = int k"
  using assms
proof (induction ts arbitrary: k)
  case Nil
  then show ?case by simp
next
  case (Cons t ts)
  show ?case
  proof (cases k)
    case 0
    then show ?thesis by simp
  next
    case (Suc j)
    with Cons.prems have j: "j < length ts" and d: "distinct (map tab_id ts)"
      and notin: "tab_id t \<notin> tab_id ` set ts"
      by auto
    from j have "tab_id (ts ! j) \<in> tab_id ` set ts" by simp
    with notin have neq: "tab_id (ts ! j) \<noteq> tab_id t" by metis
    from Cons.IH [OF d j] neq Suc show ?thesis by (simp add: Let_def)
  qed
qed

lemma setCurrentWidget_nth:
  assumes "widget_ok tb" and "0 \<le> i" and "i < tb_count tb"
  shows "setCurrentWidget (tabs tb ! nat i) tb = tb\<lparr>current := i\<rparr>"
proof -
  from assms have "nat i < length (tabs tb)" and d: "distinct (map tab_id (tabs tb))"
    by (simp_all add: tb_count_def widget_ok_def)
  with index_of_nth [OF d, of "nat i"] assms show ?thesis
    by (simp add: setCurrentWidget_def setCurrentIndex_def)
qed

lemma resolve_two_parts:
  assumes sp: "split_once (CHR ''/'') index = [w, i]"
    and w: "py_int w = Some win_id" and i: "py_int i = Some idx"
  shows "resolve_buffer_index model index app =
     (case window_registry app win_id of
        None \<Rightarrow> Inl (CommandError (''There'' @ [CHR 0x27] @ ''s no window with id ''
                                   @ str_int win_id @ ''!''))
      | Some tabbed_browser \<Rightarrow>
          if \<not> (0 < idx \<and> idx \<le> tb_count tabbed_browser) then
            Inl (CommandError (''There'' @ [CHR 0x27] @ ''s no tab with index ''
                               @ str_int idx @ ''!''))
          else Inr (win_id, tabbed_browser, tabs tabbed_browser ! nat (idx - 1)))"
  using assms by (simp add: resolve_buffer_index_def)

lemma resolve_fuzzy:
  assumes "\<not> list_all (\<lambda>part. py_int part \<noteq> None) (split_once (CHR ''/'') index)"
  shows "model index = [] \<Longrightarrow>
           resolve_buffer_index model index app
             = Inl (CommandError (''No matching tab for: '' @ index))"
    and "model index = first_item # items \<Longrightarrow>
         list_all (\<lambda>part. py_int part \<noteq> None) (split_once (CHR ''/'') first_item) \<Longrightarrow>
           resolve_buffer_index model index app = resolve_buffer_index model first_item app"
  using assms by (simp_all add: resolve_buffer_index_def)

text \<open>
  C7. \<open>buffer\<close> called with an index text and no count. When the text is \<open>W/I\<close>, two
  parts that \<open>int\<close> accepts: with no window of id \<open>W\<close> a command error is raised; with
  \<open>I\<close> outside \<open>[1, tab count of that window]\<close> a command error is raised; in both
  cases nothing has changed; otherwise window \<open>W\<close> is activated and raised and the tab
  at position \<open>I - 1\<close> becomes its current tab. When a part of the text is not accepted
  by \<open>int\<close>, the text is the pattern of the completion model over the tabs of all
  windows: with no item the command error \<^verbatim>\<open>No matching tab for: ...\<close> is raised, else
  \<open>buffer\<close> does what it does for the \<open>W/I\<close> of the first item.
\<close>

theorem buffer_resolution:
  "(split_once (CHR ''/'') index = [w, i] \<and> py_int w = Some win_id \<and> py_int i = Some idx \<and>
    window_registry app win_id = None \<longrightarrow>
      buffer model env cfg self_win_id (Some index) None app =
        (Inl (CommandError (''There'' @ [CHR 0x27] @ ''s no window with id ''
                            @ str_int win_id @ ''!'')), app)) \<and>
   (split_once (CHR ''/'') index = [w, i] \<and> py_int w = Some win_id \<and> py_int i = Some idx \<and>
    window_registry app win_id = Some tb \<and> \<not> (1 \<le> idx \<and> idx \<le> tb_count tb) \<longrightarrow>
      buffer model env cfg self_win_id (Some index) None app =
        (Inl (CommandError (''There'' @ [CHR 0x27] @ ''s no tab with index ''
                            @ str_int idx @ ''!'')), app)) \<and>
   (split_once (CHR ''/'') index = [w, i] \<and> py_int w = Some win_id \<and> py_int i = Some idx \<and>
    window_registry app win_id = Some tb \<and> 1 \<le> idx \<and> idx \<le> tb_count tb \<and> widget_ok tb \<longrightarrow>
      buffer model env cfg self_win_id (Some index) None app =
        (Inr (),
         app\<lparr>window_calls := window_calls app @ [ActivateWindow win_id, RaiseWindow win_id],
             window_registry := (window_registry app)(win_id \<mapsto> tb\<lparr>current := idx - 1\<rparr>)\<rparr>)) \<and>
   (\<not> list_all (\<lambda>part. py_int part \<noteq> None) (split_once (CHR ''/'') index) \<and>
    model index = [] \<longrightarrow>
      buffer model env cfg self_win_id (Some index) None app =
        (Inl (CommandError (''No matching tab for: '' @ index)), app)) \<and>
   (\<not> list_all (\<lambda>part. py_int part \<noteq> None) (split_once (CHR ''/'') index) \<and>
    model index = first_item # items \<and>
    list_all (\<lambda>part. py_int part \<noteq> None) (split_once (CHR ''/'') first_item) \<longrightarrow>
      buffer model env cfg self_win_id (Some index) None app =
        buffer model env cfg self_win_id (Some first_item) None app)"
proof -
  have a: "split_once (CHR ''/'') index = [w, i] \<and> py_int w = Some win_id \<and> py_int i = Some idx \<and>
    window_registry app win_id = None \<longrightarrow>
      buffer model env cfg self_win_id (Some index) None app =
        (Inl (CommandError (''There'' @ [CHR 0x27] @ ''s no window with id ''
                            @ str_int win_id @ ''!'')), app)"
    by (simp add: buffer_def resolve_two_parts)
  have b: "split_once (CHR ''/'') index = [w, i] \<and> py_int w = Some win_id \<and> py_int i = Some idx \<and>
    window_registry app win_id = Some tb \<and> \<not> (1 \<le> idx \<and> idx \<le> tb_count tb) \<longrightarrow>
      buffer model env cfg self_win_id (Some index) None app =
        (Inl (CommandError (''There'' @ [CHR 0x27] @ ''s no tab with index ''
                            @ str_int idx @ ''!'')), app)"
    by (auto simp: buffer_def resolve_two_parts)
  have c: "split_once (CHR ''/'') index = [w, i] \<and> py_int w = Some win_id \<and> py_int i = Some idx \<and>
    window_registry app win_id = Some tb \<and> 1 \<le> idx \<and> idx \<le> tb_count tb \<and> widget_ok tb \<longrightarrow>
      buffer model env cfg self_win_id (Some index) None app =
        (Inr (),
         app\<lparr>window_calls := window_calls app @ [ActivateWindow win_id, RaiseWindow win_id],
             window_registry := (window_registry app)(win_id \<mapsto> tb\<lparr>current := idx - 1\<rparr>)\<rparr>)"
    using setCurrentWidget_nth [of tb "idx - 1"]
    by (auto simp: buffer_def resolve_two_parts)
  have d: "\<not> list_all (\<lambda>part. py_int part \<noteq> None) (split_once (CHR ''/'') index) \<and>
    model index = [] \<longrightarrow>
      buffer model env cfg self_win_id (Some index) None app =
        (Inl (CommandError (''No matching tab for: '' @ index)), app)"
    by (simp add: buffer_def resolve_fuzzy)
  have e: "\<not> list_all (\<lambda>part. py_int part \<noteq> None) (split_once (CHR ''/'') index) \<and>
    model index = first_item # items \<and>
    list_all (\<lambda>part. py_int part \<noteq> None) (split_once (CHR ''/'') first_item) \<longrightarrow>
      buffer model env cfg self_win_id (Some index) None app =
        buffer model env cfg self_win_id (Some first_item) None app"
    by (simp add: buffer_def resolve_fuzzy(2) [of index model first_item items])
  from a b c d e show ?thesis by blast
qed

lemma py_int_samples [simp]:
  "py_int ''1'' = Some 1" "py_int ''2'' = Some 2" "py_int ''3'' = Some 3"
  "py_int ''7'' = Some 7" "py_int ''9'' = Some 9" "py_int ''foo'' = None" "py_int ''bar'' = None"
  by (simp_all add: py_int_def int_strip_def int_isspace_def is_digit_def digit_value_def)

lemma py_int_margins:
  "py_int '' +1_0 '' = Some 10" "py_int [CHR 0xA0, CHR ''2'', CHR 0x0A] = Some 2"
  "py_int [CHR 0x1C, CHR ''2''] = None" "py_int ''+ 1'' = None" "py_int ''1__0'' = None"
  by (simp_all add: py_int_def int_strip_def int_isspace_def is_digit_def digit_value_def)

lemma split_once_samples [simp]:
  "split_once (CHR ''/'') ''2/3'' = [''2'', ''3'']"
  "split_once (CHR ''/'') ''7/1'' = [''7'', ''1'']"
  "split_once (CHR ''/'') ''2/9'' = [''2'', ''9'']"
  "split_once (CHR ''/'') ''2/1'' = [''2'', ''1'']"
  "split_once (CHR ''/'') ''foo'' = [''foo'']"
  "split_once (CHR ''/'') ''bar'' = [''bar'']"
  by simp_all

lemma sample_app_registry [simp]:
  "window_registry sample_app 2 = Some (sample_window 4 0)"
  "window_registry sample_app 7 = None"
  by (simp_all add: sample_app_def)

lemma sample_window_4_ok: "widget_ok (sample_window 4 0)" by (rule sample_window_ok) simp_all

theorem buffer_resolution_witness:
  "buffer sample_model sample_env (sample_config True SelectRightTab) 0 (Some ''2/3'') None sample_app
     = (Inr (), sample_app\<lparr>window_calls := [ActivateWindow 2, RaiseWindow 2],
          window_registry := (window_registry sample_app)(2 \<mapsto> sample_window 4 2)\<rparr>) \<and>
   buffer sample_model sample_env (sample_config True SelectRightTab) 0 (Some ''7/1'') None sample_app
     = (Inl (CommandError (''There'' @ [CHR 0x27] @ ''s no window with id 7!'')), sample_app) \<and>
   buffer sample_model sample_env (sample_config True SelectRightTab) 0 (Some ''2/9'') None sample_app
     = (Inl (CommandError (''There'' @ [CHR 0x27] @ ''s no tab with index 9!'')), sample_app) \<and>
   buffer sample_model sample_env (sample_config True SelectRightTab) 0 (Some ''bar'') None sample_app
     = (Inl (CommandError ''No matching tab for: bar''), sample_app) \<and>
   buffer sample_model sample_env (sample_config True SelectRightTab) 0 (Some ''foo'') None sample_app
     = buffer sample_model sample_env (sample_config True SelectRightTab) 0 (Some ''2/1'') None
         sample_app \<and>
   buffer sample_model sample_env (sample_config True SelectRightTab) 0
       (Some (CHR 0x1C # ''2/3'')) None sample_app
     = (Inl (CommandError (''No matching tab for: '' @ CHR 0x1C # ''2/3'')), sample_app)"
proof -
  let ?cfg = "sample_config True SelectRightTab"
  note inst = buffer_resolution [where model = sample_model and env = sample_env and cfg = ?cfg
      and self_win_id = 0 and app = sample_app]
  have a: "buffer sample_model sample_env ?cfg 0 (Some ''2/3'') None sample_app
     = (Inr (), sample_app\<lparr>window_calls := [ActivateWindow 2, RaiseWindow 2],
          window_registry := (window_registry sample_app)(2 \<mapsto> sample_window 4 2)\<rparr>)"
    using inst [where index = "''2/3''" and w = "''2''" and i = "''3''" and win_id = 2 and idx = 3
        and tb = "sample_window 4 0"] sample_window_4_ok
    by (simp add: sample_window_count) (simp add: sample_window_def sample_app_def)
  have b: "buffer sample_model sample_env ?cfg 0 (Some ''7/1'') None sample_app
     = (Inl (CommandError (''There'' @ [CHR 0x27] @ ''s no window with id 7!'')), sample_app)"
    using inst [where index = "''7/1''" and w = "''7''" and i = "''1''" and win_id = 7 and idx = 1]
    by (simp add: str_int_def digit_char_def)
  have c: "buffer sample_model sample_env ?cfg 0 (Some ''2/9'') None sample_app
     = (Inl (CommandError (''There'' @ [CHR 0x27] @ ''s no tab with index 9!'')), sample_app)"
    using inst [where index = "''2/9''" and w = "''2''" and i = "''9''" and win_id = 2 and idx = 9
        and tb = "sample_window 4 0"]
    by (simp add: sample_window_count str_int_def digit_char_def)
  have d: "buffer sample_model sample_env ?cfg 0 (Some ''bar'') None sample_app
     = (Inl (CommandError ''No matching tab for: bar''), sample_app)"
    using inst [where index = "''bar''"] by (simp add: sample_model_def)
  have e: "buffer sample_model sample_env ?cfg 0 (Some ''foo'') None sample_app
     = buffer sample_model sample_env ?cfg 0 (Some ''2/1'') None sample_app"
    using inst [where index = "''foo''" and first_item = "''2/1''" and items = "[''0/2'']"]
    by (simp add: sample_model_def)
  have f: "buffer sample_model sample_env ?cfg 0 (Some (CHR 0x1C # ''2/3'')) None sample_app
     = (Inl (CommandError (''No matching tab for: '' @ CHR 0x1C # ''2/3'')), sample_app)"
    using inst [where index = "CHR 0x1C # ''2/3''"] py_int_margins(3)
    by (simp add: sample_model_def)
  from a b c d e f show ?thesis by simp
qed

end
